theory Spec2Isabelle
  imports Main
begin

section \<open>Python strings\<close>

text \<open>
  A Python \<^verbatim>\<open>str\<close> is the list of the bytes of its UTF-8 encoding; a character outside
  ASCII is two to four bytes (U+00A0 is 0xC2 0xA0). Equality, concatenation, \<^verbatim>\<open>in\<close> and
  \<^verbatim>\<open>split\<close> of strings are those of their encodings.

  \<^verbatim>\<open>str.strip()\<close> removes the whitespace characters at both ends: the characters for which
  \<^verbatim>\<open>str.isspace\<close> holds, which are U+0009 to U+000D, U+001C to U+0020, U+0085, U+00A0,
  U+1680, U+2000 to U+200A, U+2028, U+2029, U+202F, U+205F and U+3000. \<open>whitespace\<close>
  lists their encodings.

  \<^verbatim>\<open>str.lower()\<close> applies the lowercase mapping of the Unicode database, which is a table
  of the Python library and no part of the program: it is a parameter of the environment
  (\<open>str_lower\<close>, below). \<^verbatim>\<open>str.upper()\<close> is applied to \<^verbatim>\<open>str(uuid.uuid4())\<close> only, which
  holds hexadecimal digits and hyphens; on ASCII it maps the letters a to z.
\<close>

definition starts_with :: "string \<Rightarrow> string \<Rightarrow> bool" where
  "starts_with sep s = (take (length sep) s = sep)"

definition whitespace :: "string list" where
  "whitespace =
     [[CHR 0x09],
      [CHR 0x0A],
      [CHR 0x0B],
      [CHR 0x0C],
      [CHR 0x0D],
      [CHR 0x1C],
      [CHR 0x1D],
      [CHR 0x1E],
      [CHR 0x1F],
      [CHR 0x20],
      [CHR 0xC2, CHR 0x85],
      [CHR 0xC2, CHR 0xA0],
      [CHR 0xE1, CHR 0x9A, CHR 0x80],
      [CHR 0xE2, CHR 0x80, CHR 0x80],
      [CHR 0xE2, CHR 0x80, CHR 0x81],
      [CHR 0xE2, CHR 0x80, CHR 0x82],
      [CHR 0xE2, CHR 0x80, CHR 0x83],
      [CHR 0xE2, CHR 0x80, CHR 0x84],
      [CHR 0xE2, CHR 0x80, CHR 0x85],
      [CHR 0xE2, CHR 0x80, CHR 0x86],
      [CHR 0xE2, CHR 0x80, CHR 0x87],
      [CHR 0xE2, CHR 0x80, CHR 0x88],
      [CHR 0xE2, CHR 0x80, CHR 0x89],
      [CHR 0xE2, CHR 0x80, CHR 0x8A],
      [CHR 0xE2, CHR 0x80, CHR 0xA8],
      [CHR 0xE2, CHR 0x80, CHR 0xA9],
      [CHR 0xE2, CHR 0x80, CHR 0xAF],
      [CHR 0xE2, CHR 0x81, CHR 0x9F],
      [CHR 0xE3, CHR 0x80, CHR 0x80]]"

text \<open>
  Removing from the left of a string, as long as there is one, an occurrence of one of
  the patterns \<open>ps\<close> (none of which is empty).
\<close>

fun strip_left :: "string list \<Rightarrow> string \<Rightarrow> string" where
  "strip_left ps [] = []"
| "strip_left ps (c # cs) =
     (case find (\<lambda>p. starts_with p (c # cs)) ps of
        None \<Rightarrow> c # cs
      | Some p \<Rightarrow> strip_left ps (drop (length p - 1) cs))"

definition lstrip :: "string \<Rightarrow> string" where
  "lstrip s = strip_left whitespace s"

definition rstrip :: "string \<Rightarrow> string" where
  "rstrip s = rev (strip_left (map rev whitespace) (rev s))"

definition strip :: "string \<Rightarrow> string" where
  "strip s = rstrip (lstrip s)"

definition upper_char :: "char \<Rightarrow> char" where
  "upper_char c =
     (let n = (of_char c :: nat) in if 97 \<le> n \<and> n \<le> 122 then char_of (n - 32) else c)"

definition upper :: "string \<Rightarrow> string" where
  "upper s = map upper_char s"

text \<open>\<^verbatim>\<open>sub in s\<close> for two strings.\<close>

fun contains :: "string \<Rightarrow> string \<Rightarrow> bool" where
  "contains sub [] = (sub = [])"
| "contains sub (c # cs) = (starts_with sub (c # cs) \<or> contains sub cs)"

text \<open>
  \<^verbatim>\<open>s.split(sep)\<close> for a non-empty separator: the pieces between the non-overlapping
  occurrences of \<open>sep\<close>, found from the left. The accumulator holds the current piece
  reversed. (Python raises ValueError on an empty separator; the program only splits on
  the literals \<^verbatim>\<open>","\<close>, \<^verbatim>\<open>"/"\<close>, \<^verbatim>\<open>"&"\<close>, \<^verbatim>\<open>"id="\<close> and \<^verbatim>\<open>"/file/d/"\<close>.)
\<close>

function split_acc :: "string \<Rightarrow> string \<Rightarrow> string \<Rightarrow> string list" where
  "split_acc sep acc [] = [rev acc]"
| "split_acc sep acc (c # cs) =
     (if starts_with sep (c # cs)
      then rev acc # split_acc sep [] (drop (length sep - 1) cs)
      else split_acc sep (c # acc) cs)"
  by pat_completeness auto
termination
  by (relation "measure (\<lambda>(sep, acc, s). length s)") auto

definition split :: "string \<Rightarrow> string \<Rightarrow> string list" where
  "split s sep = split_acc sep [] s"

text \<open>\<^verbatim>\<open>str(i)\<close> for a non-negative integer.\<close>

definition digit :: "nat \<Rightarrow> char" where
  "digit d = char_of (48 + d)"

fun str_nat :: "nat \<Rightarrow> string" where
  "str_nat n = (if n < 10 then [digit n] else str_nat (n div 10) @ [digit (n mod 10)])"

declare str_nat.simps [simp del]

section \<open>Exceptions, HTTP replies and JSON\<close>

text \<open>The exceptions the program can meet; each carries its message \<^verbatim>\<open>str(e)\<close>.\<close>

datatype exn =
    AttributeError string
  | TypeError string
  | KeyError string
  | IndexError string
  | ValueError string
  | OSError string
  | RequestError string
  | DownloadError string

fun str_exn :: "exn \<Rightarrow> string" where
  "str_exn (AttributeError m) = m"
| "str_exn (TypeError m) = m"
| "str_exn (KeyError m) = m"
| "str_exn (IndexError m) = m"
| "str_exn (ValueError m) = m"
| "str_exn (OSError m) = m"
| "str_exn (RequestError m) = m"
| "str_exn (DownloadError m) = m"

text \<open>A decoded JSON document as Python holds it; a dict is the list of its items, each key
  once.\<close>

datatype json =
    JNull
  | JBool bool
  | JNum int
  | JStr string
  | JArr "json list"
  | JObj "(string \<times> json) list"

text \<open>
  What \<^verbatim>\<open>requests.get\<close> / \<^verbatim>\<open>requests.post\<close> gives: it raises (\<open>Unreachable\<close> with
  the message), or returns a response with its \<^verbatim>\<open>status_code\<close>, its \<^verbatim>\<open>text\<close>, and what
  \<^verbatim>\<open>r.json()\<close> does on it: \<open>Inl\<close> the message of the decoding error it raises, \<open>Inr\<close>
  the decoded body.
\<close>

datatype 'a http = Unreachable string | Response nat string "string + 'a"


section \<open>The environment and the world\<close>

text \<open>The value of \<^verbatim>\<open>platform.system()\<close>; anything but Windows and macOS is \<open>Other\<close>.\<close>

datatype platform = Windows | Darwin | Other

text \<open>
  A file on disk: its size and the attributes the program changes (the Windows
  hidden, system and read-only flags, the macOS hidden flag, the POSIX mode).
\<close>

record disk_file =
  fsize :: nat
  hidden :: bool
  system_flag :: bool
  readonly :: bool
  mode :: nat

definition new_file :: "nat \<Rightarrow> disk_file" where
  "new_file n = \<lparr>fsize = n, hidden = False, system_flag = False, readonly = False, mode = 420\<rparr>"

text \<open>The calls into the operating system and into \<^verbatim>\<open>gdown\<close>.\<close>

datatype oscall =
    System string
  | Chmod string nat
  | Remove string
  | Rename string string
  | Gdown string string

text \<open>
  What \<^verbatim>\<open>gdown.download(url, output, quiet=True)\<close> does: it writes a file of \<open>n\<close> bytes
  to \<open>output\<close> and returns; or returns without writing anything; or raises, having left
  nothing or a partial file of \<open>n\<close> bytes at \<open>output\<close>.
\<close>

datatype gdown_result = Fetched nat | NoFile | Aborted "nat option" string

text \<open>A record of the catalog, with the four keys \<^verbatim>\<open>fetch_mod_list\<close> documents.\<close>

record mod_record =
  Mod_Name :: string
  Google_Drive_Link :: string
  Serial_Key :: string
  Mod_Internal_Name :: string

text \<open>The two closures the program hands to \<^verbatim>\<open>threading.Thread\<close>, with what they capture.\<close>

datatype task =
    DownloadTask string string
  | UpdateKeyTask string

text \<open>
  Everything the program does to the outside, in order: message boxes, the progress
  label and bar (\<open>BarSet\<close> holds the value in percent), sleeping (milliseconds), the log,
  HTTP requests, calls into the operating system, thread starts, and what
  \<^verbatim>\<open>load_mod_list\<close> draws: a row with its install button (the display name), and an
  uninstall button (the internal name).
\<close>

datatype event =
    ShowError string string
  | ShowInfo string string
  | LabelText string
  | BarSet nat
  | Sleep nat
  | LogInfo string
  | LogError string
  | Get string
  | Post string string string
  | Os oscall
  | Spawn task
  | ClearRows
  | Row string
  | UninstallButton string

text \<open>
  The environment is everything the program reads and does not decide: the platform,
  the module constant \<^verbatim>\<open>MOD_INSTALL_PATH\<close> (\<open>None\<close> on an unsupported platform), the
  library functions \<^verbatim>\<open>os.path.join\<close> and \<^verbatim>\<open>os.path.basename\<close>, which calls the operating
  system refuses (with the message of the error), what \<^verbatim>\<open>gdown\<close> does, what the server
  answers on its three endpoints, the next \<^verbatim>\<open>str(uuid.uuid4())\<close>, and the library
  function \<^verbatim>\<open>str.lower\<close>. The credentials and the MAC address are query parameters of
  the two GET requests; the answers are given here, so they are left out.
\<close>

record env =
  system :: platform
  MOD_INSTALL_PATH :: "string option"
  path_join :: "string \<Rightarrow> string \<Rightarrow> string"
  path_basename :: "string \<Rightarrow> string"
  denied :: "oscall \<Rightarrow> string option"
  gdown :: "string \<Rightarrow> string \<Rightarrow> gdown_result"
  get_user_mods :: "json http"
  get_available_mods :: "mod_record list http"
  update_serial_key :: "unit http"
  uuid4 :: string
  str_lower :: "string \<Rightarrow> string"

record world =
  fs :: "string \<Rightarrow> disk_file option"
  trace :: "event list"

text \<open>
  A statement sequence is a function from the world to a result and the world it
  leaves; \<open>Inl\<close> is a raised exception. The world an exception leaves is kept: what was
  done before the raise stays done.
\<close>

type_synonym 'a io = "world \<Rightarrow> (exn + 'a) \<times> world"

definition ret :: "'a \<Rightarrow> 'a io" where
  "ret x w = (Inr x, w)"

definition raise :: "exn \<Rightarrow> 'a io" where
  "raise x w = (Inl x, w)"

definition bnd :: "'a io \<Rightarrow> ('a \<Rightarrow> 'b io) \<Rightarrow> 'b io" where
  "bnd m k w = (case m w of (Inl x, w') \<Rightarrow> (Inl x, w') | (Inr a, w') \<Rightarrow> k a w')"

fun seq :: "unit io list \<Rightarrow> unit io" where
  "seq [] = ret ()"
| "seq (m # ms) = bnd m (\<lambda>_. seq ms)"

definition try_except :: "'a io \<Rightarrow> (exn \<Rightarrow> 'a io) \<Rightarrow> 'a io" where
  "try_except m h w = (case m w of (Inl x, w') \<Rightarrow> h x w' | (Inr a, w') \<Rightarrow> (Inr a, w'))"

definition lift :: "exn + 'a \<Rightarrow> 'a io" where
  "lift r w = (r, w)"

definition emit :: "event \<Rightarrow> unit io" where
  "emit ev w = (Inr (), w\<lparr>trace := trace w @ [ev]\<rparr>)"

subsection \<open>The user interface and the log\<close>

definition showerror :: "string \<Rightarrow> string \<Rightarrow> unit io" where
  "showerror title message = emit (ShowError title message)"

definition showinfo :: "string \<Rightarrow> string \<Rightarrow> unit io" where
  "showinfo title message = emit (ShowInfo title message)"

definition label_configure :: "string \<Rightarrow> unit io" where
  "label_configure text = emit (LabelText text)"

definition bar_set :: "nat \<Rightarrow> unit io" where
  "bar_set percent = emit (BarSet percent)"

definition sleep :: "nat \<Rightarrow> unit io" where
  "sleep ms = emit (Sleep ms)"

definition logging_info :: "string \<Rightarrow> unit io" where
  "logging_info msg = emit (LogInfo msg)"

definition logging_error :: "string \<Rightarrow> unit io" where
  "logging_error msg = emit (LogError msg)"

subsection \<open>The operating system\<close>

definition os_path_exists :: "string \<Rightarrow> bool io" where
  "os_path_exists p w = (Inr (fs w p \<noteq> None), w)"

definition os_path_getsize :: "string \<Rightarrow> nat io" where
  "os_path_getsize p w =
     (case fs w p of
        None \<Rightarrow> (Inl (OSError ''No such file or directory''), w)
      | Some f \<Rightarrow> (Inr (fsize f), w))"

text \<open>
  Each call is recorded when it is made. \<^verbatim>\<open>os.remove\<close>, \<^verbatim>\<open>os.rename\<close> and \<^verbatim>\<open>os.chmod\<close>
  raise OSError on a missing file and when the system refuses; \<^verbatim>\<open>os.rename\<close> on Windows
  also raises when the target exists.
\<close>

definition os_remove :: "env \<Rightarrow> string \<Rightarrow> unit io" where
  "os_remove e p =
     bnd (emit (Os (Remove p))) (\<lambda>_ w.
       case fs w p of
         None \<Rightarrow> (Inl (OSError ''No such file or directory''), w)
       | Some f \<Rightarrow>
           (case denied e (Remove p) of
              Some msg \<Rightarrow> (Inl (OSError msg), w)
            | None \<Rightarrow> (Inr (), w\<lparr>fs := (fs w)(p := None)\<rparr>)))"

definition os_rename :: "env \<Rightarrow> string \<Rightarrow> string \<Rightarrow> unit io" where
  "os_rename e src dst =
     bnd (emit (Os (Rename src dst))) (\<lambda>_ w.
       case fs w src of
         None \<Rightarrow> (Inl (OSError ''No such file or directory''), w)
       | Some f \<Rightarrow>
           if system e = Windows \<and> fs w dst \<noteq> None
           then (Inl (OSError ''Cannot create a file when that file already exists''), w)
           else (case denied e (Rename src dst) of
                   Some msg \<Rightarrow> (Inl (OSError msg), w)
                 | None \<Rightarrow> (Inr (), w\<lparr>fs := (fs w)(src := None, dst := Some f)\<rparr>)))"

definition os_chmod :: "env \<Rightarrow> string \<Rightarrow> nat \<Rightarrow> unit io" where
  "os_chmod e p m =
     bnd (emit (Os (Chmod p m))) (\<lambda>_ w.
       case fs w p of
         None \<Rightarrow> (Inl (OSError ''No such file or directory''), w)
       | Some f \<Rightarrow>
           (case denied e (Chmod p m) of
              Some msg \<Rightarrow> (Inl (OSError msg), w)
            | None \<Rightarrow> (Inr (), w\<lparr>fs := (fs w)(p := Some (f\<lparr>mode := m\<rparr>))\<rparr>)))"

text \<open>
  \<^verbatim>\<open>os.system(cmd)\<close> runs a shell command and returns its exit status, which the program
  never reads: a command that fails changes nothing and raises nothing. \<open>change\<close> is what
  the command does to the attributes of the file at \<open>p\<close> when it succeeds.
\<close>

definition os_system :: "env \<Rightarrow> string \<Rightarrow> string \<Rightarrow> (disk_file \<Rightarrow> disk_file) \<Rightarrow> unit io" where
  "os_system e cmd p change =
     bnd (emit (Os (System cmd))) (\<lambda>_ w.
       case fs w p of
         None \<Rightarrow> (Inr (), w)
       | Some f \<Rightarrow>
           (case denied e (System cmd) of
              Some msg \<Rightarrow> (Inr (), w)
            | None \<Rightarrow> (Inr (), w\<lparr>fs := (fs w)(p := Some (change f))\<rparr>)))"

definition gdown_download :: "env \<Rightarrow> string \<Rightarrow> string \<Rightarrow> unit io" where
  "gdown_download e url output =
     bnd (emit (Os (Gdown url output))) (\<lambda>_ w.
       case gdown e url output of
         Fetched n \<Rightarrow> (Inr (), w\<lparr>fs := (fs w)(output := Some (new_file n))\<rparr>)
       | NoFile \<Rightarrow> (Inr (), w)
       | Aborted None msg \<Rightarrow> (Inl (DownloadError msg), w)
       | Aborted (Some n) msg \<Rightarrow>
           (Inl (DownloadError msg), w\<lparr>fs := (fs w)(output := Some (new_file n))\<rparr>))"

text \<open>\<^verbatim>\<open>os.path.join(MOD_INSTALL_PATH, name)\<close>: a TypeError when the constant is None.\<close>

definition join_install_path :: "env \<Rightarrow> string \<Rightarrow> string io" where
  "join_install_path e name =
     (case MOD_INSTALL_PATH e of
        None \<Rightarrow> raise (TypeError ''expected str, bytes or os.PathLike object, not NoneType'')
      | Some d \<Rightarrow> ret (path_join e d name))"

subsection \<open>File attributes\<close>

text \<open>The path between double quotes, as the f-strings of the shell commands have it.\<close>

definition quoted :: "string \<Rightarrow> string" where
  "quoted p = [CHR 0x22] @ p @ [CHR 0x22]"

definition set_file_attributes :: "env \<Rightarrow> string \<Rightarrow> unit io" where
  "set_file_attributes e file_path =
     (case system e of
        Windows \<Rightarrow>
          os_system e (''attrib +h +s +r '' @ quoted file_path) file_path
            (\<lambda>f. f\<lparr>hidden := True, system_flag := True, readonly := True\<rparr>)
      | Darwin \<Rightarrow>
          seq [os_system e (''chflags hidden '' @ quoted file_path) file_path
                 (\<lambda>f. f\<lparr>hidden := True\<rparr>),
               os_chmod e file_path 292]
      | Other \<Rightarrow> os_chmod e file_path 292)"

definition remove_file_attributes :: "env \<Rightarrow> string \<Rightarrow> unit io" where
  "remove_file_attributes e file_path =
     (case system e of
        Windows \<Rightarrow>
          os_system e (''attrib -h -s -r '' @ quoted file_path) file_path
            (\<lambda>f. f\<lparr>hidden := False, system_flag := False, readonly := False\<rparr>)
      | Darwin \<Rightarrow>
          seq [os_system e (''chflags nohidden '' @ quoted file_path) file_path
                 (\<lambda>f. f\<lparr>hidden := False\<rparr>),
               os_chmod e file_path 438]
      | Other \<Rightarrow> os_chmod e file_path 438)"

section \<open>The catalog client\<close>

definition API_URL :: string where
  "API_URL = ''http://lynx96.pythonanywhere.com/''"

text \<open>
  \<^verbatim>\<open>key in x\<close> for a string \<open>key\<close>: a key of a dict, a substring of a string, an element
  of a list; a TypeError on anything else.
\<close>

fun json_contains :: "string \<Rightarrow> json \<Rightarrow> exn + bool" where
  "json_contains key (JObj kvs) = Inr (map_of kvs key \<noteq> None)"
| "json_contains key (JStr s) = Inr (contains key s)"
| "json_contains key (JArr xs) = Inr (List.member xs (JStr key))"
| "json_contains key x = Inl (TypeError ''argument is not iterable'')"

text \<open>\<^verbatim>\<open>x[key]\<close> for a string \<open>key\<close>.\<close>

fun json_getitem :: "json \<Rightarrow> string \<Rightarrow> exn + json" where
  "json_getitem (JObj kvs) key =
     (case map_of kvs key of None \<Rightarrow> Inl (KeyError key) | Some v \<Rightarrow> Inr v)"
| "json_getitem (JStr s) key = Inl (TypeError ''string indices must be integers'')"
| "json_getitem (JArr xs) key = Inl (TypeError ''list indices must be integers or slices'')"
| "json_getitem x key = Inl (TypeError ''object is not subscriptable'')"

text \<open>\<^verbatim>\<open>[mod.strip().lower() for mod in user_mods_str.split(",") if mod.strip()]\<close>\<close>

definition split_user_mods :: "env \<Rightarrow> string \<Rightarrow> string list" where
  "split_user_mods e user_mods_str =
     map (\<lambda>m. str_lower e (strip m)) (filter (\<lambda>m. strip m \<noteq> []) (split user_mods_str '',''))"

text \<open>
  The body of the \<^verbatim>\<open>try\<close> of \<^verbatim>\<open>get_user_purchased_mods\<close>, after the request is sent.
  \<^verbatim>\<open>data and isinstance(data, list) and len(data) > 0\<close> holds of a non-empty list and of
  nothing else; \<^verbatim>\<open>and\<close> then evaluates \<^verbatim>\<open>"User Mods" in data[0]\<close>, which can raise.
\<close>

definition read_user_mods :: "env \<Rightarrow> json http \<Rightarrow> exn + string list" where
  "read_user_mods e r =
     (case r of
        Unreachable msg \<Rightarrow> Inl (RequestError msg)
      | Response status_code text body \<Rightarrow>
          if status_code = 200 then
            (case body of
               Inl msg \<Rightarrow> Inl (ValueError msg)
             | Inr data \<Rightarrow>
                 (case data of
                    JArr (first # rest) \<Rightarrow>
                      (case json_contains ''User Mods'' first of
                         Inl x \<Rightarrow> Inl x
                       | Inr False \<Rightarrow> Inr []
                       | Inr True \<Rightarrow>
                           (case json_getitem first ''User Mods'' of
                              Inl x \<Rightarrow> Inl x
                            | Inr (JStr user_mods_str) \<Rightarrow> Inr (split_user_mods e user_mods_str)
                            | Inr other \<Rightarrow> Inl (AttributeError ''object has no attribute split'')))
                  | other \<Rightarrow> Inr []))
          else Inr [])"

definition get_user_purchased_mods :: "env \<Rightarrow> string list io" where
  "get_user_purchased_mods e =
     try_except
       (bnd (emit (Get (API_URL @ ''get_user_mods''))) (\<lambda>_. lift (read_user_mods e (get_user_mods e))))
       (\<lambda>x. bnd (showerror ''Error'' (''Error fetching user mods: '' @ str_exn x)) (\<lambda>_. ret []))"

definition fetch_mod_list :: "env \<Rightarrow> mod_record list io" where
  "fetch_mod_list e =
     try_except
       (bnd (emit (Get (API_URL @ ''get_available_mods''))) (\<lambda>_.
          case get_available_mods e of
            Unreachable msg \<Rightarrow> raise (RequestError msg)
          | Response status_code text body \<Rightarrow>
              if status_code = 200 then
                (case body of Inl msg \<Rightarrow> raise (ValueError msg) | Inr mods \<Rightarrow> ret mods)
              else bnd (showerror ''Error'' (''Error fetching mod list: '' @ text)) (\<lambda>_. ret [])))
       (\<lambda>x. bnd (showerror ''Error'' (''Error fetching mod list: '' @ str_exn x)) (\<lambda>_. ret []))"

text \<open>\<^verbatim>\<open>str(uuid.uuid4()).replace("-", "")[:14].upper()\<close>\<close>

definition new_serial_key :: "env \<Rightarrow> string" where
  "new_serial_key e = upper (take 14 (filter (\<lambda>c. c \<noteq> CHR ''-'') (uuid4 e)))"

definition post_update_serial_key :: "env \<Rightarrow> string \<Rightarrow> string option io" where
  "post_update_serial_key e mod_internal_name =
     try_except
       (bnd (emit (Post (API_URL @ ''update_serial_key'') mod_internal_name (new_serial_key e)))
          (\<lambda>_. case update_serial_key e of
             Unreachable msg \<Rightarrow> raise (RequestError msg)
           | Response status_code text body \<Rightarrow>
               if status_code = 200 then
                 bnd (logging_info (''Serial key updated for '' @ mod_internal_name))
                   (\<lambda>_. ret (Some (new_serial_key e)))
               else bnd (showerror ''Error'' (''Failed to update serial key: '' @ text))
                   (\<lambda>_. ret None)))
       (\<lambda>x. bnd (showerror ''Error'' (''Error updating serial key: '' @ str_exn x))
          (\<lambda>_. ret None))"

section \<open>Listing the mods\<close>

text \<open>
  The loop of \<^verbatim>\<open>load_mod_list\<close>: a row with an install button for each record of the
  catalog whose normalised display name is among the purchased names, and an uninstall
  button when the asset file of the record exists.
\<close>

fun draw_rows :: "env \<Rightarrow> string list \<Rightarrow> mod_record list \<Rightarrow> unit io" where
  "draw_rows e purchased_mods [] = ret ()"
| "draw_rows e purchased_mods (m # ms) =
     (if List.member purchased_mods (str_lower e (strip (Mod_Name m)))
      then bnd (emit (Row (Mod_Name m))) (\<lambda>_.
           bnd (join_install_path e (Mod_Internal_Name m @ ''.scs'')) (\<lambda>decoy_path.
           bnd (os_path_exists decoy_path) (\<lambda>installed.
           bnd (if installed then emit (UninstallButton (Mod_Internal_Name m)) else ret ()) (\<lambda>_.
           draw_rows e purchased_mods ms))))
      else draw_rows e purchased_mods ms)"

definition load_mod_list :: "env \<Rightarrow> unit io" where
  "load_mod_list e =
     bnd (emit ClearRows) (\<lambda>_.
     bnd (get_user_purchased_mods e) (\<lambda>purchased_mods.
     bnd (fetch_mod_list e) (\<lambda>mod_list.
     draw_rows e purchased_mods mod_list)))"

section \<open>Download and install\<close>

text \<open>\<^verbatim>\<open>xs[i]\<close>, with its IndexError.\<close>

definition item :: "'a list \<Rightarrow> nat \<Rightarrow> exn + 'a" where
  "item xs i = (if i < length xs then Inr (xs ! i) else Inl (IndexError ''list index out of range''))"

definition extract_drive_file_id :: "string \<Rightarrow> exn + string option" where
  "extract_drive_file_id drive_link =
     (if contains ''/file/d/'' drive_link then
        (case item (split drive_link ''/file/d/'') 1 of
           Inl x \<Rightarrow> Inl x
         | Inr rest \<Rightarrow>
             (case item (split rest ''/'') 0 of Inl x \<Rightarrow> Inl x | Inr file_id \<Rightarrow> Inr (Some file_id)))
      else if contains ''id='' drive_link then
        (case item (split drive_link ''id='') 1 of
           Inl x \<Rightarrow> Inl x
         | Inr rest \<Rightarrow>
             (case item (split rest ''&'') 0 of Inl x \<Rightarrow> Inl x | Inr file_id \<Rightarrow> Inr (Some file_id)))
      else Inr None)"

text \<open>\<^verbatim>\<open>for i in range(1, 101, 10)\<close>: the simulated progress.\<close>

definition progress_steps :: "nat list" where
  "progress_steps = map (\<lambda>k. 1 + 10 * k) [0..<10]"

definition simulate_progress :: "unit io" where
  "simulate_progress =
     seq (concat (map (\<lambda>i. [bar_set i,
                             label_configure (''Downloading: '' @ str_nat i @ ''%''),
                             sleep 300]) progress_steps))"

text \<open>
  The closure \<^verbatim>\<open>download\<close> of \<^verbatim>\<open>download_with_gdown\<close>, which runs in its own thread;
  \<open>url\<close> and \<open>destination\<close> are what it captures.
\<close>

definition download :: "env \<Rightarrow> string \<Rightarrow> string \<Rightarrow> bool io" where
  "download e url destination =
     try_except
       (let temp_file = destination @ ''.tmp'' in
        bnd (seq [label_configure ''Initializing Download...'',
                  bar_set 0,
                  gdown_download e url temp_file,
                  simulate_progress]) (\<lambda>_.
        bnd (bnd (os_path_exists temp_file) (\<lambda>there.
               if \<not> there then ret True
               else bnd (os_path_getsize temp_file) (\<lambda>n. ret (n < 500000)))) (\<lambda>failed.
        if failed then
          bnd (seq [bnd (os_path_exists temp_file) (\<lambda>there.
                      if there then os_remove e temp_file else ret ()),
                    showerror ''Error'' ''Download failed! Try again.'',
                    label_configure ''Download Failed'',
                    bar_set 0]) (\<lambda>_. ret False)
        else
          bnd (seq [os_rename e temp_file destination,
                    set_file_attributes e destination,
                    label_configure ''Mod Installed!'',
                    bar_set 100,
                    showinfo ''Success'' (path_basename e destination @ '' installed successfully!''),
                    load_mod_list e]) (\<lambda>_. ret True))))
       (\<lambda>x. bnd (seq [logging_error (''Download failed: '' @ str_exn x),
                       showerror ''Error'' (''Failed to download mod: '' @ str_exn x),
                       label_configure ''Download Failed'']) (\<lambda>_. ret False))"

text \<open>\<^verbatim>\<open>threading.Thread(target=..., daemon=True).start()\<close>\<close>

definition start_thread :: "task \<Rightarrow> unit io" where
  "start_thread t = emit (Spawn t)"

definition download_with_gdown :: "env \<Rightarrow> string \<Rightarrow> string \<Rightarrow> unit io" where
  "download_with_gdown e file_id destination =
     start_thread (DownloadTask (''https://drive.google.com/uc?id='' @ file_id) destination)"

text \<open>The closure \<^verbatim>\<open>update_key\<close> of \<^verbatim>\<open>install_mod\<close>, which runs in its own thread.\<close>

definition update_key :: "env \<Rightarrow> string \<Rightarrow> unit io" where
  "update_key e internal_name =
     bnd (post_update_serial_key e internal_name) (\<lambda>new_key.
       case new_key of
         None \<Rightarrow> ret ()
       | Some k \<Rightarrow>
           if k \<noteq> [] then logging_info (''Serial key updated for '' @ internal_name) else ret ())"

text \<open>
  The condition of the \<^verbatim>\<open>if\<close> in the loop of \<^verbatim>\<open>install_mod\<close>. \<^verbatim>\<open>and\<close> evaluates its right
  side only when the names are equal; there \<^verbatim>\<open>serial_key_input.strip()\<close> raises when the
  input is None, which is what the key dialog returns when it is cancelled.
\<close>

definition record_matches :: "mod_record \<Rightarrow> string \<Rightarrow> string option \<Rightarrow> exn + bool" where
  "record_matches m mod_name serial_key_input =
     (if Mod_Name m = mod_name then
        (case serial_key_input of
           None \<Rightarrow> Inl (AttributeError ''NoneType object has no attribute strip'')
         | Some k \<Rightarrow> Inr (strip (Serial_Key m) = strip k))
      else Inr False)"

text \<open>The body of that \<^verbatim>\<open>if\<close>, after the two updates of the progress widgets.\<close>

definition install_matched :: "env \<Rightarrow> string \<Rightarrow> string \<Rightarrow> unit io" where
  "install_matched e internal_name drive_link =
     bnd (lift (extract_drive_file_id drive_link)) (\<lambda>file_id.
       case file_id of
         None \<Rightarrow> showerror ''Error'' ''Invalid Google Drive link!''
       | Some fid \<Rightarrow>
           if fid = [] then showerror ''Error'' ''Invalid Google Drive link!''
           else
             bnd (join_install_path e (internal_name @ ''.scs'')) (\<lambda>mod_path.
               seq [bnd (os_path_exists mod_path) (\<lambda>there.
                      if there then seq [remove_file_attributes e mod_path, os_remove e mod_path]
                      else ret ()),
                    download_with_gdown e fid mod_path,
                    start_thread (UpdateKeyTask internal_name)]))"

fun install_loop ::
  "env \<Rightarrow> string \<Rightarrow> string \<Rightarrow> string \<Rightarrow> string option \<Rightarrow> mod_record list \<Rightarrow> unit io" where
  "install_loop e mod_name internal_name drive_link serial_key_input [] =
     seq [showerror ''Error'' ''Invalid serial key!'', label_configure ''Invalid Key'']"
| "install_loop e mod_name internal_name drive_link serial_key_input (m # ms) =
     bnd (lift (record_matches m mod_name serial_key_input)) (\<lambda>matches.
       if matches then
         seq [label_configure (''Preparing '' @ mod_name @ ''...''),
              bar_set 0,
              install_matched e internal_name drive_link]
       else install_loop e mod_name internal_name drive_link serial_key_input ms)"

definition install_mod ::
  "env \<Rightarrow> string \<Rightarrow> string \<Rightarrow> string \<Rightarrow> string option \<Rightarrow> unit io" where
  "install_mod e mod_name internal_name drive_link serial_key_input =
     bnd (fetch_mod_list e) (\<lambda>mod_list.
       install_loop e mod_name internal_name drive_link serial_key_input mod_list)"

definition uninstall_mod :: "env \<Rightarrow> string \<Rightarrow> unit io" where
  "uninstall_mod e internal_name =
     bnd (join_install_path e (internal_name @ ''.scs'')) (\<lambda>mod_path.
     bnd (bnd (os_path_exists mod_path) (\<lambda>there.
            if there then
              bnd (seq [remove_file_attributes e mod_path, os_remove e mod_path]) (\<lambda>_. ret True)
            else ret False)) (\<lambda>removed_any.
     if removed_any then
       seq [label_configure (internal_name @ '' uninstalled''),
            showinfo ''Success'' (internal_name @ '' uninstalled!''),
            load_mod_list e]
     else showerror ''Error'' ''Mod not found.''))"

section \<open>Threads\<close>

text \<open>
  A started thread runs its closure on the world it finds; an exception that leaves the
  closure ends the thread and nothing else. The threads an operation has started are
  the \<open>Spawn\<close> events of its trace, and an execution runs them in some order.
\<close>

fun run_task :: "env \<Rightarrow> task \<Rightarrow> world \<Rightarrow> world" where
  "run_task e (DownloadTask url destination) w = snd (download e url destination w)"
| "run_task e (UpdateKeyTask internal_name) w = snd (update_key e internal_name w)"

fun run_tasks :: "env \<Rightarrow> task list \<Rightarrow> world \<Rightarrow> world" where
  "run_tasks e [] w = w"
| "run_tasks e (t # ts) w = run_tasks e ts (run_task e t w)"

section \<open>Observations and the specification's side\<close>

text \<open>The threads a trace has started, and the calls into the operating system it holds.\<close>

fun spawned :: "event list \<Rightarrow> task list" where
  "spawned [] = []"
| "spawned (Spawn t # evs) = t # spawned evs"
| "spawned (ev # evs) = spawned evs"

fun os_calls :: "event list \<Rightarrow> oscall list" where
  "os_calls [] = []"
| "os_calls (Os c # evs) = c # os_calls evs"
| "os_calls (ev # evs) = os_calls evs"

text \<open>
  The entitled names as the specification words them: the comma-separated field of the
  first record of a 200 answer, split at the commas, the pieces trimmed, the empty ones
  dropped, the others lowercased; the empty list in every other case. \<open>lower\<close> is the
  lowercase mapping.
\<close>

definition entitled_names_spec :: "(string \<Rightarrow> string) \<Rightarrow> json http \<Rightarrow> string list" where
  "entitled_names_spec lower r =
     (case r of
        Response status_code text (Inr (JArr (JObj kvs # rest))) \<Rightarrow>
          if status_code = 200 then
            (case map_of kvs ''User Mods'' of
               Some (JStr field) \<Rightarrow>
                 map lower (filter (\<lambda>name. name \<noteq> []) (map strip (split field '','')))
             | _ \<Rightarrow> [])
          else []
      | _ \<Rightarrow> [])"

text \<open>The rotation requests and the calls into the operating system of a trace, in order.\<close>

fun rotation_and_files :: "event list \<Rightarrow> event list" where
  "rotation_and_files [] = []"
| "rotation_and_files (Post url name key # evs) = Post url name key # rotation_and_files evs"
| "rotation_and_files (Os c # evs) = Os c # rotation_and_files evs"
| "rotation_and_files (ev # evs) = rotation_and_files evs"

text \<open>The events of the simulated progress.\<close>

definition progress_events :: "event list" where
  "progress_events =
     concat (map (\<lambda>i. [BarSet i, LabelText (''Downloading: '' @ str_nat i @ ''%''), Sleep 300])
       progress_steps)"




text \<open>The calls \<^verbatim>\<open>remove_file_attributes\<close> makes on a path.\<close>

definition unprotect_calls :: "env \<Rightarrow> string \<Rightarrow> oscall list" where
  "unprotect_calls e p =
     (case system e of
        Windows \<Rightarrow> [System (''attrib -h -s -r '' @ quoted p)]
      | Darwin \<Rightarrow> [System (''chflags nohidden '' @ quoted p), Chmod p 438]
      | Other \<Rightarrow> [Chmod p 438])"

section \<open>Example environments\<close>

text \<open>
  The catalog record of the specification's scenarios, a macOS installation on which
  every call succeeds and the transfer delivers 600,000 bytes, and a disk with no files.
  The strings of the examples hold ASCII letters only, and on those \<^verbatim>\<open>str.lower\<close> maps A
  to Z and nothing else. The entitlement field of the example has a space, a no-break
  space (U+00A0), an empty piece and capitals.
\<close>

definition ascii_lower_char :: "char \<Rightarrow> char" where
  "ascii_lower_char c =
     (let n = (of_char c :: nat) in if 65 \<le> n \<and> n \<le> 90 then char_of (n + 32) else c)"

definition ascii_lower :: "string \<Rightarrow> string" where
  "ascii_lower s = map ascii_lower_char s"

definition nbsp :: string where
  "nbsp = [CHR 0xC2, CHR 0xA0]"

definition premium_truck :: mod_record where
  "premium_truck =
     \<lparr>Mod_Name = ''premium truck'',
      Google_Drive_Link = ''https://drive.google.com/file/d/1AbC/view'',
      Serial_Key = ''ABCD1234XYZ999'',
      Mod_Internal_Name = ''premium_truck''\<rparr>"

definition mac_env :: env where
  "mac_env =
     \<lparr>system = Darwin,
      MOD_INSTALL_PATH = Some ''/mod'',
      path_join = (\<lambda>a b. a @ ''/'' @ b),
      path_basename = (\<lambda>p. last (split p ''/'')),
      denied = (\<lambda>c. None),
      gdown = (\<lambda>url output. Fetched 600000),
      get_user_mods =
        Response 200 []
          (Inr (JArr [JObj [(''User Mods'', JStr ('' Premium Truck'' @ nbsp @ '', ,BUS''))]])),
      get_available_mods = Response 200 [] (Inr [premium_truck]),
      update_serial_key = Response 200 [] (Inr ()),
      uuid4 = ''123e4567-e89b-12d3-a456-426614174000'',
      str_lower = ascii_lower\<rparr>"

definition empty_disk :: world where
  "empty_disk = \<lparr>fs = (\<lambda>p. None), trace = []\<rparr>"

definition twin_truck :: mod_record where
  "twin_truck = premium_truck\<lparr>Serial_Key := ''QRST5678UVW000''\<rparr>"

text \<open>
  Variations: a disk that holds the installed asset; a system that refuses every
  \<^verbatim>\<open>chmod\<close>, and one that refuses every rename; a transfer that delivers 400,000 bytes,
  the same on a system that refuses every deletion, and a transfer that breaks off after
  123,456 bytes; and the world \<^verbatim>\<open>install_mod\<close> leaves on the
  example installation when the key is right.
\<close>

definition installed_disk :: world where
  "installed_disk =
     \<lparr>fs = (\<lambda>p. if p = ''/mod/premium_truck.scs'' then Some (new_file 600000) else None),
      trace = []\<rparr>"

definition locked_env :: env where
  "locked_env =
     mac_env\<lparr>denied := (\<lambda>c. case c of Chmod p m \<Rightarrow> Some ''Operation not permitted'' | _ \<Rightarrow> None)\<rparr>"

definition small_env :: env where
  "small_env = mac_env\<lparr>gdown := (\<lambda>url output. Fetched 400000)\<rparr>"


definition rename_refused_env :: env where
  "rename_refused_env =
     mac_env\<lparr>denied := (\<lambda>c. case c of Rename src dst \<Rightarrow> Some ''Permission denied'' | _ \<Rightarrow> None)\<rparr>"

definition aborted_env :: env where
  "aborted_env = mac_env\<lparr>gdown := (\<lambda>url output. Aborted (Some 123456) ''Connection reset by peer'')\<rparr>"

definition after_install :: world where
  "after_install =
     \<lparr>fs = (\<lambda>p. None),
      trace = [Get ''http://lynx96.pythonanywhere.com/get_available_mods'',
         LabelText ''Preparing premium truck...'', BarSet 0,
         Spawn (DownloadTask ''https://drive.google.com/uc?id=1AbC'' ''/mod/premium_truck.scs''),
         Spawn (UpdateKeyTask ''premium_truck'')]\<rparr>"

text \<open>The record of the example with another link and another internal name.\<close>

definition moved_truck :: mod_record where
  "moved_truck =
     premium_truck\<lparr>Google_Drive_Link := ''https://drive.google.com/file/d/9ZyX/view'',
                    Mod_Internal_Name := ''other_mod''\<rparr>"

section \<open>Running statement sequences\<close>

lemmas io_defs = ret_def raise_def bnd_def try_except_def lift_def emit_def showerror_def
  showinfo_def label_configure_def bar_set_def sleep_def logging_info_def logging_error_def
  start_thread_def

lemmas os_defs = os_path_exists_def os_path_getsize_def os_remove_def os_rename_def os_chmod_def
  os_system_def gdown_download_def join_install_path_def

lemmas string_defs = strip_def lstrip_def rstrip_def whitespace_def starts_with_def split_def
  item_def nbsp_def

lemmas example_defs = mac_env_def empty_disk_def premium_truck_def twin_truck_def API_URL_def

lemma spawned_append: "spawned (xs @ ys) = spawned xs @ spawned ys"
  by (induction xs rule: spawned.induct) simp_all

lemma os_calls_append: "os_calls (xs @ ys) = os_calls xs @ os_calls ys"
  by (induction xs rule: os_calls.induct) simp_all

lemma case_io_unit:
  "(case r of (Inl x, w') \<Rightarrow> (Inl x, w') | (Inr a, w') \<Rightarrow> ret a w') = (r :: (exn + unit) \<times> world)"
  by (simp add: ret_def split: prod.splits sum.splits)

section \<open>The entitled mods\<close>

lemma split_user_mods_spec:
  "split_user_mods e s =
     map (str_lower e) (filter (\<lambda>name. name \<noteq> []) (map strip (split s '','')))"
  unfolding split_user_mods_def
  by (induction "split s '',''") (simp_all add: filter_map o_def)

lemma read_user_mods_entitled:
  "(case read_user_mods e r of Inl x \<Rightarrow> [] | Inr names \<Rightarrow> names) =
     entitled_names_spec (str_lower e) r"
  unfolding read_user_mods_def entitled_names_spec_def
  by (auto split: http.splits sum.splits json.splits list.splits option.splits bool.splits
      simp: split_user_mods_spec)

text \<open>
  C9. Whatever the server answers, \<^verbatim>\<open>get_user_purchased_mods\<close> returns (it never raises),
  and what it returns is the list the specification describes: the names of the
  comma-separated field of the first record, trimmed, lowercased and non-empty, and the
  empty list when the field is absent, the answer is empty or not a 200, or the request
  or the decoding fails.
\<close>

theorem get_user_purchased_mods_entitled:
  "fst (get_user_purchased_mods e w) = Inr (entitled_names_spec (str_lower e) (get_user_mods e))"
  unfolding get_user_purchased_mods_def try_except_def bnd_def emit_def lift_def showerror_def
    ret_def read_user_mods_entitled [symmetric]
  by (simp split: sum.splits)

text \<open>
  On the example, the field " Premium TruckNBSP, ,BUS" (NBSP the no-break space) gives
  the names "premium truck" and "bus".
\<close>

theorem get_user_purchased_mods_entitled_witness:
  "fst (get_user_purchased_mods mac_env empty_disk) = Inr [''premium truck'', ''bus'']"
  using get_user_purchased_mods_entitled [of mac_env empty_disk]
  by (simp add: entitled_names_spec_def mac_env_def nbsp_def string_defs ascii_lower_def
      ascii_lower_char_def char_of_def bit_0)

section \<open>Serial-key validation\<close>

text \<open>
  \<^verbatim>\<open>fetch_mod_list\<close> never raises, touches no file, starts no thread and calls nothing of
  the operating system.
\<close>

lemma fetch_mod_list_quiet:
  assumes "fetch_mod_list e w = (r, w1)"
  shows "(\<exists>ms. r = Inr ms) \<and> fs w1 = fs w \<and> spawned (trace w1) = spawned (trace w)
    \<and> os_calls (trace w1) = os_calls (trace w)"
  using assms unfolding fetch_mod_list_def io_defs
  by (auto simp: spawned_append os_calls_append split: http.splits sum.splits if_splits)

text \<open>
  The loop of \<^verbatim>\<open>install_mod\<close> with a key that is a string: it enters the body at the
  first record with the requested name and a matching trimmed key, and reports an invalid
  key when the catalog has no such record.
\<close>

lemma install_loop_Some:
  "install_loop e mod_name internal_name drive_link (Some k) ms w =
     (if \<exists>m\<in>set ms. Mod_Name m = mod_name \<and> strip (Serial_Key m) = strip k
      then install_matched e internal_name drive_link
             (w\<lparr>trace := trace w @ [LabelText (''Preparing '' @ mod_name @ ''...''), BarSet 0]\<rparr>)
      else (Inr (), w\<lparr>trace := trace w @ [ShowError ''Error'' ''Invalid serial key!'',
                                           LabelText ''Invalid Key'']\<rparr>))"
proof (induction ms)
  case Nil
  show ?case by (simp add: io_defs)
next
  case (Cons m ms)
  show ?case
  proof (cases "Mod_Name m = mod_name \<and> strip (Serial_Key m) = strip k")
    case True
    then show ?thesis
      by (simp add: record_matches_def io_defs case_io_unit)
  next
    case False
    then have "record_matches m mod_name (Some k) = Inr False"
      by (auto simp: record_matches_def)
    with False Cons show ?thesis
      by (auto simp: io_defs)
  qed
qed

text \<open>
  With no key (the key dialog was cancelled) the loop raises at the first record with the
  requested name, and reports an invalid key when there is none; it does nothing else.
\<close>

lemma install_loop_None:
  "install_loop e mod_name internal_name drive_link None ms w =
     (if \<exists>m\<in>set ms. Mod_Name m = mod_name
      then (Inl (AttributeError ''NoneType object has no attribute strip''), w)
      else (Inr (), w\<lparr>trace := trace w @ [ShowError ''Error'' ''Invalid serial key!'',
                                           LabelText ''Invalid Key'']\<rparr>))"
  by (induction ms) (auto simp: io_defs record_matches_def)

text \<open>The body only adds to the trace.\<close>

lemma install_matched_extends:
  "\<exists>evs. trace (snd (install_matched e internal_name drive_link w)) = trace w @ evs"
  unfolding install_matched_def download_with_gdown_def remove_file_attributes_def
  by (simp add: io_defs os_defs split: sum.splits option.splits platform.splits prod.splits)

lemma install_matched_bad_link:
  assumes "\<not> contains ''/file/d/'' drive_link" and "\<not> contains ''id='' drive_link"
  shows "install_matched e internal_name drive_link w =
     (Inr (), w\<lparr>trace := trace w @ [ShowError ''Error'' ''Invalid Google Drive link!'']\<rparr>)"
  using assms by (simp add: install_matched_def extract_drive_file_id_def io_defs)

text \<open>The example installation: what the catalog request and the body of the loop do.\<close>

lemma fetch_mac:
  "fetch_mod_list (mac_env\<lparr>get_available_mods := Response 200 [] (Inr ms)\<rparr>) empty_disk =
     (Inr ms, \<lparr>fs = (\<lambda>p. None), trace = [Get ''http://lynx96.pythonanywhere.com/get_available_mods'']\<rparr>)"
  by (simp add: fetch_mod_list_def io_defs example_defs)

lemma install_matched_mac:
  "install_matched (mac_env\<lparr>get_available_mods := r\<rparr>) ''premium_truck''
      ''https://drive.google.com/file/d/1AbC/view'' \<lparr>fs = (\<lambda>p. None), trace = evs\<rparr> =
   (Inr (), \<lparr>fs = (\<lambda>p. None), trace = evs @
      [Spawn (DownloadTask ''https://drive.google.com/uc?id=1AbC'' ''/mod/premium_truck.scs''),
       Spawn (UpdateKeyTask ''premium_truck'')]\<rparr>)"
  by (simp add: install_matched_def io_defs extract_drive_file_id_def string_defs
      join_install_path_def mac_env_def download_with_gdown_def os_path_exists_def)

lemma fetch_mac_env:
  "fetch_mod_list mac_env empty_disk =
     (Inr [premium_truck],
      \<lparr>fs = (\<lambda>p. None), trace = [Get ''http://lynx96.pythonanywhere.com/get_available_mods'']\<rparr>)"
  using fetch_mac [of "[premium_truck]"] by (simp add: mac_env_def)

lemma install_matched_mac_env:
  "install_matched mac_env ''premium_truck''
      ''https://drive.google.com/file/d/1AbC/view'' \<lparr>fs = (\<lambda>p. None), trace = evs\<rparr> =
   (Inr (), \<lparr>fs = (\<lambda>p. None), trace = evs @
      [Spawn (DownloadTask ''https://drive.google.com/uc?id=1AbC'' ''/mod/premium_truck.scs''),
       Spawn (UpdateKeyTask ''premium_truck'')]\<rparr>)"
  using install_matched_mac [of "get_available_mods mac_env"] by simp

lemma install_mod_mac_env:
  "install_mod mac_env ''premium truck'' ''premium_truck''
     ''https://drive.google.com/file/d/1AbC/view'' (Some ''ABCD1234XYZ999'') empty_disk =
   (Inr (), after_install)"
  by (simp add: install_mod_def bnd_def fetch_mac_env install_loop_Some install_matched_mac_env
      del: install_loop.simps)
    (simp add: premium_truck_def string_defs after_install_def)

text \<open>
  C1, as the claim states it, fails when two records of the catalog share a display
  name: the loop goes on after a record whose name matches and whose key does not, so the
  key of the second record passes validation although it is not the key of the first.
\<close>

theorem install_mod_twin_names_counterexample:
  "Mod_Name premium_truck = ''premium truck''
   \<and> strip ''QRST5678UVW000'' \<noteq> strip (Serial_Key premium_truck)
   \<and> install_mod (mac_env\<lparr>get_available_mods := Response 200 [] (Inr [premium_truck, twin_truck])\<rparr>)
        ''premium truck'' ''premium_truck'' ''https://drive.google.com/file/d/1AbC/view''
        (Some ''QRST5678UVW000'') empty_disk =
      (Inr (), \<lparr>fs = (\<lambda>p. None), trace =
        [Get ''http://lynx96.pythonanywhere.com/get_available_mods'',
         LabelText ''Preparing premium truck...'', BarSet 0,
         Spawn (DownloadTask ''https://drive.google.com/uc?id=1AbC'' ''/mod/premium_truck.scs''),
         Spawn (UpdateKeyTask ''premium_truck'')]\<rparr>)"
  by (simp add: install_mod_def bnd_def fetch_mac install_loop_Some install_matched_mac
      del: install_loop.simps)
    (simp add: example_defs string_defs)

text \<open>
  C1, amended. Let the supplied key be a string \<open>k\<close>, and \<open>mod_list\<close> the catalog that
  \<^verbatim>\<open>fetch_mod_list\<close> returned. \<^verbatim>\<open>install_mod\<close> goes past validation (it runs the body of the
  loop, after setting the label to "Preparing ..." and the bar to 0) if and only if some
  record of the catalog has the requested display name and a serial key equal to \<open>k\<close>
  after trimming both. Otherwise, also when no record has that name or the catalog is
  empty, it returns after reporting an invalid serial key in a message box and on the
  label; up to there no file has changed, no thread was started and the operating system
  was not called.
\<close>

theorem install_mod_validation:
  assumes "fetch_mod_list e w = (Inr mod_list, w1)"
  shows "install_mod e mod_name internal_name drive_link (Some k) w =
     (if \<exists>m\<in>set mod_list. Mod_Name m = mod_name \<and> strip (Serial_Key m) = strip k
      then install_matched e internal_name drive_link
             (w1\<lparr>trace := trace w1 @ [LabelText (''Preparing '' @ mod_name @ ''...''), BarSet 0]\<rparr>)
      else (Inr (), w1\<lparr>trace := trace w1 @ [ShowError ''Error'' ''Invalid serial key!'',
                                             LabelText ''Invalid Key'']\<rparr>))
    \<and> ((\<exists>evs. trace (snd (install_mod e mod_name internal_name drive_link (Some k) w)) =
            trace w1 @ LabelText (''Preparing '' @ mod_name @ ''...'') # BarSet 0 # evs)
        \<longleftrightarrow> (\<exists>m\<in>set mod_list. Mod_Name m = mod_name \<and> strip (Serial_Key m) = strip k))
    \<and> fs w1 = fs w \<and> spawned (trace w1) = spawned (trace w)
    \<and> os_calls (trace w1) = os_calls (trace w)"
proof -
  let ?ok = "\<exists>m\<in>set mod_list. Mod_Name m = mod_name \<and> strip (Serial_Key m) = strip k"
  let ?w2 = "w1\<lparr>trace := trace w1 @ [LabelText (''Preparing '' @ mod_name @ ''...''), BarSet 0]\<rparr>"
  let ?run = "install_mod e mod_name internal_name drive_link (Some k) w"
  have run: "?run =
     (if ?ok then install_matched e internal_name drive_link ?w2
      else (Inr (), w1\<lparr>trace := trace w1 @ [ShowError ''Error'' ''Invalid serial key!'',
                                             LabelText ''Invalid Key'']\<rparr>))"
    using assms by (simp add: install_mod_def bnd_def install_loop_Some del: install_loop.simps)
  have seen: "(\<exists>evs. trace (snd ?run) =
      trace w1 @ LabelText (''Preparing '' @ mod_name @ ''...'') # BarSet 0 # evs) \<longleftrightarrow> ?ok"
  proof (cases ?ok)
    case True
    obtain evs where "trace (snd (install_matched e internal_name drive_link ?w2)) = trace ?w2 @ evs"
      using install_matched_extends by blast
    with True run show ?thesis by simp
  next
    case False
    with run show ?thesis by simp
  qed
  from run seen fetch_mod_list_quiet [OF assms] show ?thesis
    by blast
qed

theorem install_mod_validation_witness:
  "fetch_mod_list mac_env empty_disk =
     (Inr [premium_truck], \<lparr>fs = (\<lambda>p. None), trace = [Get ''http://lynx96.pythonanywhere.com/get_available_mods'']\<rparr>)
   \<and> install_mod mac_env ''premium truck'' ''premium_truck''
        ''https://drive.google.com/file/d/1AbC/view'' (Some ('' ABCD1234XYZ999'' @ nbsp)) empty_disk =
      (Inr (), \<lparr>fs = (\<lambda>p. None), trace =
        [Get ''http://lynx96.pythonanywhere.com/get_available_mods'',
         LabelText ''Preparing premium truck...'', BarSet 0,
         Spawn (DownloadTask ''https://drive.google.com/uc?id=1AbC'' ''/mod/premium_truck.scs''),
         Spawn (UpdateKeyTask ''premium_truck'')]\<rparr>)
   \<and> install_mod mac_env ''premium truck'' ''premium_truck''
        ''https://drive.google.com/file/d/1AbC/view'' (Some ''WRONGKEY'') empty_disk =
      (Inr (), \<lparr>fs = (\<lambda>p. None), trace =
        [Get ''http://lynx96.pythonanywhere.com/get_available_mods'',
         ShowError ''Error'' ''Invalid serial key!'', LabelText ''Invalid Key'']\<rparr>)"
  using install_mod_validation [OF fetch_mac_env, of "''premium truck''" "''premium_truck''"
      "''https://drive.google.com/file/d/1AbC/view''" "'' ABCD1234XYZ999'' @ nbsp"]
    install_mod_validation [OF fetch_mac_env, of "''premium truck''" "''premium_truck''"
      "''https://drive.google.com/file/d/1AbC/view''" "''WRONGKEY''"] fetch_mac_env
  by (simp add: install_matched_mac_env empty_disk_def premium_truck_def string_defs)

section \<open>The case of the key\<close>

text \<open>
  C5, as the claim states it, fails: the keys are compared with \<^verbatim>\<open>==\<close> after \<^verbatim>\<open>strip()\<close>
  and nothing folds their case, so the lowercase key of scenario A is reported invalid.
\<close>

theorem install_mod_lowercase_key_counterexample:
  "install_mod mac_env ''premium truck'' ''premium_truck''
        ''https://drive.google.com/file/d/1AbC/view'' (Some ''abcd1234xyz999'') empty_disk =
      (Inr (), \<lparr>fs = (\<lambda>p. None), trace =
        [Get ''http://lynx96.pythonanywhere.com/get_available_mods'',
         ShowError ''Error'' ''Invalid serial key!'', LabelText ''Invalid Key'']\<rparr>)"
  by (simp add: install_mod_def bnd_def fetch_mac_env install_loop_Some del: install_loop.simps)
    (simp add: premium_truck_def string_defs)

text \<open>
  C5, amended. When the catalog has one record named "premium truck" and its serial key
  is "ABCD1234XYZ999", an install request for that name with a key that is a string goes
  past validation exactly when that key is "ABCD1234XYZ999" once the whitespace at its
  ends is trimmed: the comparison trims whitespace and is case-sensitive.
\<close>

theorem install_mod_scenario_A:
  assumes "fetch_mod_list e w = (Inr mod_list, w1)"
    and "map Serial_Key (filter (\<lambda>m. Mod_Name m = ''premium truck'') mod_list) = [''ABCD1234XYZ999'']"
  shows "install_mod e ''premium truck'' internal_name drive_link (Some k) w =
     (if strip k = ''ABCD1234XYZ999''
      then install_matched e internal_name drive_link
             (w1\<lparr>trace := trace w1 @ [LabelText ''Preparing premium truck...'', BarSet 0]\<rparr>)
      else (Inr (), w1\<lparr>trace := trace w1 @ [ShowError ''Error'' ''Invalid serial key!'',
                                             LabelText ''Invalid Key'']\<rparr>))"
proof -
  have key: "strip ''ABCD1234XYZ999'' = ''ABCD1234XYZ999''"
    by (simp add: string_defs)
  obtain m0 where only: "filter (\<lambda>m. Mod_Name m = ''premium truck'') mod_list = [m0]"
    and m0: "Serial_Key m0 = ''ABCD1234XYZ999''"
    using assms(2) by (auto simp: map_eq_Cons_conv)
  have "(\<exists>m\<in>set mod_list. Mod_Name m = ''premium truck'' \<and> strip (Serial_Key m) = strip k)
      \<longleftrightarrow> (\<exists>m\<in>set (filter (\<lambda>m. Mod_Name m = ''premium truck'') mod_list).
            strip (Serial_Key m) = strip k)"
    by auto
  also have "\<dots> \<longleftrightarrow> strip k = ''ABCD1234XYZ999''"
    unfolding only using m0 key by auto
  finally have "(\<exists>m\<in>set mod_list. Mod_Name m = ''premium truck'' \<and> strip (Serial_Key m) = strip k)
      \<longleftrightarrow> strip k = ''ABCD1234XYZ999''" .
  then show ?thesis
    using assms(1) by (simp add: install_mod_def bnd_def install_loop_Some del: install_loop.simps)
qed

theorem install_mod_scenario_A_witness:
  "fetch_mod_list mac_env empty_disk =
     (Inr [premium_truck], \<lparr>fs = (\<lambda>p. None), trace = [Get ''http://lynx96.pythonanywhere.com/get_available_mods'']\<rparr>)
   \<and> map Serial_Key (filter (\<lambda>m. Mod_Name m = ''premium truck'') [premium_truck]) = [''ABCD1234XYZ999'']
   \<and> install_mod mac_env ''premium truck'' ''premium_truck''
        ''https://drive.google.com/file/d/1AbC/view'' (Some (nbsp @ '' ABCD1234XYZ999 '')) empty_disk =
      (Inr (), \<lparr>fs = (\<lambda>p. None), trace =
        [Get ''http://lynx96.pythonanywhere.com/get_available_mods'',
         LabelText ''Preparing premium truck...'', BarSet 0,
         Spawn (DownloadTask ''https://drive.google.com/uc?id=1AbC'' ''/mod/premium_truck.scs''),
         Spawn (UpdateKeyTask ''premium_truck'')]\<rparr>)"
proof -
  have one: "map Serial_Key (filter (\<lambda>m. Mod_Name m = ''premium truck'') [premium_truck]) =
      [''ABCD1234XYZ999'']"
    by (simp add: premium_truck_def)
  show ?thesis
    using install_mod_scenario_A [OF fetch_mac_env one, of "''premium_truck''"
        "''https://drive.google.com/file/d/1AbC/view''" "nbsp @ '' ABCD1234XYZ999 ''"] fetch_mac_env one
    by (simp add: install_matched_mac_env empty_disk_def premium_truck_def string_defs)
qed

section \<open>The resource reference\<close>

text \<open>
  C6, as the claim states it, fails: the link is looked at only inside the body of the
  loop, after the key has passed. With a link of neither shape and a wrong key the
  report is the invalid serial key, and no invalid link is reported.
\<close>

theorem install_mod_bad_link_wrong_key_counterexample:
  "\<not> contains ''/file/d/'' ''https://example.com/premium_truck.zip''
   \<and> \<not> contains ''id='' ''https://example.com/premium_truck.zip''
   \<and> install_mod mac_env ''premium truck'' ''premium_truck''
        ''https://example.com/premium_truck.zip'' (Some ''WRONGKEY'') empty_disk =
      (Inr (), \<lparr>fs = (\<lambda>p. None), trace =
        [Get ''http://lynx96.pythonanywhere.com/get_available_mods'',
         ShowError ''Error'' ''Invalid serial key!'', LabelText ''Invalid Key'']\<rparr>)"
  by (simp add: install_mod_def bnd_def fetch_mac_env install_loop_Some del: install_loop.simps)
    (simp add: premium_truck_def string_defs)

text \<open>
  C6, amended. For a link that contains neither "/file/d/" nor "id=", \<^verbatim>\<open>install_mod\<close>
  ends in the calling thread having changed no file, started no thread and called
  nothing of the operating system, whatever the key. When the key is a string, it
  returns normally, and the report is the message box "Invalid Google Drive link!" when
  the key passes validation, and the invalid serial key when it does not.
\<close>

theorem install_mod_invalid_link:
  assumes "\<not> contains ''/file/d/'' drive_link" and "\<not> contains ''id='' drive_link"
    and "fetch_mod_list e w = (Inr mod_list, w1)"
  shows "install_mod e mod_name internal_name drive_link (Some k) w =
     (Inr (), w1\<lparr>trace := trace w1 @
        (if \<exists>m\<in>set mod_list. Mod_Name m = mod_name \<and> strip (Serial_Key m) = strip k
         then [LabelText (''Preparing '' @ mod_name @ ''...''), BarSet 0,
               ShowError ''Error'' ''Invalid Google Drive link!'']
         else [ShowError ''Error'' ''Invalid serial key!'', LabelText ''Invalid Key''])\<rparr>)
    \<and> fs w1 = fs w \<and> spawned (trace w1) = spawned (trace w)
    \<and> os_calls (trace w1) = os_calls (trace w)
    \<and> fs (snd (install_mod e mod_name internal_name drive_link key w)) = fs w
    \<and> spawned (trace (snd (install_mod e mod_name internal_name drive_link key w))) =
        spawned (trace w)
    \<and> os_calls (trace (snd (install_mod e mod_name internal_name drive_link key w))) =
        os_calls (trace w)"
proof -
  note quiet = fetch_mod_list_quiet [OF assms(3)]
  note bad = install_matched_bad_link [OF assms(1,2)]
  have some: "install_mod e mod_name internal_name drive_link (Some k) w =
     (Inr (), w1\<lparr>trace := trace w1 @
        (if \<exists>m\<in>set mod_list. Mod_Name m = mod_name \<and> strip (Serial_Key m) = strip k
         then [LabelText (''Preparing '' @ mod_name @ ''...''), BarSet 0,
               ShowError ''Error'' ''Invalid Google Drive link!'']
         else [ShowError ''Error'' ''Invalid serial key!'', LabelText ''Invalid Key''])\<rparr>)" for k
    using assms(3) by (simp add: install_mod_def bnd_def install_loop_Some bad del: install_loop.simps)
  have none: "install_mod e mod_name internal_name drive_link None w =
     (if \<exists>m\<in>set mod_list. Mod_Name m = mod_name
      then (Inl (AttributeError ''NoneType object has no attribute strip''), w1)
      else (Inr (), w1\<lparr>trace := trace w1 @ [ShowError ''Error'' ''Invalid serial key!'',
                                             LabelText ''Invalid Key'']\<rparr>))"
    using assms(3) by (simp add: install_mod_def bnd_def install_loop_None del: install_loop.simps)
  have any: "fs (snd (install_mod e mod_name internal_name drive_link key w)) = fs w
    \<and> spawned (trace (snd (install_mod e mod_name internal_name drive_link key w))) =
        spawned (trace w)
    \<and> os_calls (trace (snd (install_mod e mod_name internal_name drive_link key w))) =
        os_calls (trace w)"
  proof (cases key)
    case None
    with none quiet show ?thesis
      by (simp add: spawned_append os_calls_append)
  next
    case (Some k)
    with some [of k] quiet show ?thesis
      by (simp add: spawned_append os_calls_append)
  qed
  from some [of k] quiet any show ?thesis
    by blast
qed

theorem install_mod_invalid_link_witness:
  "\<not> contains ''/file/d/'' ''https://example.com/premium_truck.zip''
   \<and> \<not> contains ''id='' ''https://example.com/premium_truck.zip''
   \<and> fetch_mod_list mac_env empty_disk =
     (Inr [premium_truck], \<lparr>fs = (\<lambda>p. None), trace = [Get ''http://lynx96.pythonanywhere.com/get_available_mods'']\<rparr>)
   \<and> install_mod mac_env ''premium truck'' ''premium_truck''
        ''https://example.com/premium_truck.zip'' (Some ''ABCD1234XYZ999'') empty_disk =
      (Inr (), \<lparr>fs = (\<lambda>p. None), trace =
        [Get ''http://lynx96.pythonanywhere.com/get_available_mods'',
         LabelText ''Preparing premium truck...'', BarSet 0,
         ShowError ''Error'' ''Invalid Google Drive link!'']\<rparr>)"
proof -
  have a: "\<not> contains ''/file/d/'' ''https://example.com/premium_truck.zip''"
    by (simp add: starts_with_def)
  have b: "\<not> contains ''id='' ''https://example.com/premium_truck.zip''"
    by (simp add: starts_with_def)
  show ?thesis
    using install_mod_invalid_link [OF a b fetch_mac_env, of "''premium truck''"
        "''premium_truck''" "''ABCD1234XYZ999''"] a b fetch_mac_env
    by (simp add: empty_disk_def premium_truck_def string_defs)
qed

section \<open>Uninstalling\<close>

text \<open>
  Redrawing the list touches no file, starts no thread and calls nothing of the
  operating system (it does send two requests to the server).
\<close>

lemma draw_rows_quiet:
  "draw_rows e purchased ms w = (r, w1) \<Longrightarrow>
     fs w1 = fs w \<and> spawned (trace w1) = spawned (trace w) \<and> os_calls (trace w1) = os_calls (trace w)"
proof (induction ms arbitrary: w)
  case Nil
  then show ?case by (simp add: io_defs)
next
  case (Cons m ms)
  show ?case
  proof (cases "List.member purchased (str_lower e (strip (Mod_Name m)))")
    case False
    with Cons show ?thesis by simp
  next
    case True
    show ?thesis
    proof (cases "MOD_INSTALL_PATH e")
      case None
      with True Cons.prems show ?thesis
        by (auto simp: io_defs os_defs spawned_append os_calls_append)
    next
      case (Some d)
      let ?p = "path_join e d (Mod_Internal_Name m @ ''.scs'')"
      let ?w = "w\<lparr>trace := trace w @ Row (Mod_Name m) #
        (if fs w ?p \<noteq> None then [UninstallButton (Mod_Internal_Name m)] else [])\<rparr>"
      from True Some Cons.prems have "draw_rows e purchased ms ?w = (r, w1)"
        by (simp add: io_defs os_defs split: if_splits)
      from Cons.IH [OF this] show ?thesis
        by (simp add: spawned_append os_calls_append)
    qed
  qed
qed

lemma get_user_purchased_mods_quiet:
  assumes "get_user_purchased_mods e w = (r, w1)"
  shows "(\<exists>names. r = Inr names) \<and> fs w1 = fs w \<and> spawned (trace w1) = spawned (trace w)
     \<and> os_calls (trace w1) = os_calls (trace w)"
proof (cases "read_user_mods e (get_user_mods e)")
  case (Inl x)
  with assms show ?thesis
    by (auto simp: get_user_purchased_mods_def io_defs spawned_append os_calls_append)
next
  case (Inr names)
  with assms have "r = Inr names" and "w1 = w\<lparr>trace := trace w @ [Get (API_URL @ ''get_user_mods'')]\<rparr>"
    by (simp_all add: get_user_purchased_mods_def io_defs)
  then show ?thesis
    by (simp add: spawned_append os_calls_append)
qed

lemma load_mod_list_quiet:
  assumes "load_mod_list e w = (r, w1)"
  shows "fs w1 = fs w \<and> spawned (trace w1) = spawned (trace w) \<and> os_calls (trace w1) = os_calls (trace w)"
proof -
  let ?w0 = "w\<lparr>trace := trace w @ [ClearRows]\<rparr>"
  obtain r1 w2 where a: "get_user_purchased_mods e ?w0 = (r1, w2)"
    by (cases "get_user_purchased_mods e ?w0")
  obtain r2 w3 where b: "fetch_mod_list e w2 = (r2, w3)"
    by (cases "fetch_mod_list e w2")
  obtain purchased where r1: "r1 = Inr purchased"
    using get_user_purchased_mods_quiet [OF a] by blast
  obtain ms where r2: "r2 = Inr ms"
    using fetch_mod_list_quiet [OF b] by blast
  have "draw_rows e purchased ms w3 = (r, w1)"
    using assms a b r1 r2 by (simp add: load_mod_list_def bnd_def emit_def)
  from draw_rows_quiet [OF this] fetch_mod_list_quiet [OF b] get_user_purchased_mods_quiet [OF a]
  show ?thesis by (simp add: spawned_append os_calls_append)
qed

lemma remove_file_attributes_calls:
  "os_calls (trace (snd (remove_file_attributes e p w))) = os_calls (trace w) @ unprotect_calls e p"
  unfolding remove_file_attributes_def unprotect_calls_def
  by (simp add: io_defs os_defs os_calls_append split: platform.splits option.splits)

lemma remove_file_attributes_keeps:
  "(fs (snd (remove_file_attributes e p w)) p = None) = (fs w p = None)"
  unfolding remove_file_attributes_def
  by (simp add: io_defs os_defs split: platform.splits option.splits)

text \<open>
  C7. On a platform with an installation directory: when the asset file of the internal
  name does not exist, \<^verbatim>\<open>uninstall_mod\<close> returns normally and all it does is show the
  message box "Mod not found." (no file changes, no exception, no request to the server,
  and not the "uninstalled" report). When the file exists, the calls that clear its
  attributes come first, and the file is deleted after them, if they did not raise.
\<close>

theorem uninstall_mod_not_found:
  assumes "MOD_INSTALL_PATH e = Some d"
  shows "(if fs w (path_join e d (internal_name @ ''.scs'')) = None
      then uninstall_mod e internal_name w =
             (Inr (), w\<lparr>trace := trace w @ [ShowError ''Error'' ''Mod not found.'']\<rparr>)
      else os_calls (trace (snd (uninstall_mod e internal_name w))) =
             os_calls (trace w) @ unprotect_calls e (path_join e d (internal_name @ ''.scs''))
               @ (if fst (remove_file_attributes e (path_join e d (internal_name @ ''.scs'')) w) = Inr ()
                  then [Remove (path_join e d (internal_name @ ''.scs''))] else []))"
proof (cases "fs w (path_join e d (internal_name @ ''.scs'')) = None")
  case True
  with assms show ?thesis
    by (simp add: uninstall_mod_def io_defs os_defs)
next
  case False
  let ?p = "path_join e d (internal_name @ ''.scs'')"
  from False have nf: "(fs w ?p = None) = False"
    by simp
  obtain r1 w1 where u: "remove_file_attributes e ?p w = (r1, w1)"
    by (cases "remove_file_attributes e ?p w")
  have calls: "os_calls (trace w1) = os_calls (trace w) @ unprotect_calls e ?p"
    using remove_file_attributes_calls [of e ?p w] u by simp
  have there: "fs w1 ?p \<noteq> None"
    using remove_file_attributes_keeps [of e ?p w] u False by simp
  show ?thesis
  proof (cases r1)
    case (Inl x)
    with assms u calls show ?thesis
      by (simp add: nf uninstall_mod_def io_defs os_defs)
  next
    case (Inr u1)
    obtain r2 w2 where rm: "os_remove e ?p w1 = (r2, w2)"
      by (cases "os_remove e ?p w1")
    have rm_calls: "os_calls (trace w2) = os_calls (trace w1) @ [Remove ?p]"
      using rm by (auto simp: os_remove_def io_defs os_calls_append split: option.splits)
    show ?thesis
    proof (cases r2)
      case (Inl x)
      with assms u Inr rm rm_calls calls show ?thesis
        by (simp add: nf uninstall_mod_def io_defs os_defs)
    next
      case (Inr u2)
      let ?w3 = "w2\<lparr>trace := trace w2 @ [LabelText (internal_name @ '' uninstalled''),
        ShowInfo ''Success'' (internal_name @ '' uninstalled!'')]\<rparr>"
      obtain r3 w4 where l: "load_mod_list e ?w3 = (r3, w4)"
        by (cases "load_mod_list e ?w3")
      have "os_calls (trace w4) = os_calls (trace w2)"
        using load_mod_list_quiet [OF l] by (simp add: os_calls_append)
      moreover have "snd (uninstall_mod e internal_name w) = w4"
        using assms u \<open>r1 = Inr u1\<close> rm Inr l
        by (simp add: nf uninstall_mod_def io_defs os_defs case_io_unit split: sum.splits)
      ultimately show ?thesis
        using u \<open>r1 = Inr u1\<close> rm_calls calls by (simp add: nf)
    qed
  qed
qed


theorem uninstall_mod_not_found_witness:
  "MOD_INSTALL_PATH mac_env = Some ''/mod''
   \<and> uninstall_mod mac_env ''premium_truck'' empty_disk =
       (Inr (), \<lparr>fs = (\<lambda>p. None), trace = [ShowError ''Error'' ''Mod not found.'']\<rparr>)
   \<and> os_calls (trace (snd (uninstall_mod mac_env ''premium_truck'' installed_disk))) =
       [System (''chflags nohidden '' @ quoted ''/mod/premium_truck.scs''),
        Chmod ''/mod/premium_truck.scs'' 438, Remove ''/mod/premium_truck.scs'']"
proof -
  have p: "MOD_INSTALL_PATH mac_env = Some ''/mod''"
    by (simp add: mac_env_def)
  have u: "fst (remove_file_attributes mac_env ''/mod/premium_truck.scs'' installed_disk) = Inr ()"
    by (simp add: remove_file_attributes_def io_defs os_defs mac_env_def installed_disk_def)
  show ?thesis
    using uninstall_mod_not_found [OF p, of empty_disk "''premium_truck''"]
      uninstall_mod_not_found [OF p, of installed_disk "''premium_truck''"] p u
    by (simp add: unprotect_calls_def mac_env_def empty_disk_def installed_disk_def)
qed


section \<open>File attributes\<close>

text \<open>
  C8, as the claim states it, fails outside Windows: \<^verbatim>\<open>os.chmod\<close> raises when the system
  refuses, nothing around it catches, and the exception leaves \<^verbatim>\<open>set_file_attributes\<close>
  and \<^verbatim>\<open>remove_file_attributes\<close>, and with them \<^verbatim>\<open>uninstall_mod\<close>, which then does not
  delete the file.
\<close>

theorem chmod_refused_counterexample:
  "fst (set_file_attributes locked_env ''/mod/premium_truck.scs'' installed_disk) =
     Inl (OSError ''Operation not permitted'')
   \<and> fst (remove_file_attributes locked_env ''/mod/premium_truck.scs'' installed_disk) =
     Inl (OSError ''Operation not permitted'')
   \<and> fst (uninstall_mod locked_env ''premium_truck'' installed_disk) =
     Inl (OSError ''Operation not permitted'')
   \<and> fs (snd (uninstall_mod locked_env ''premium_truck'' installed_disk)) ''/mod/premium_truck.scs'' =
     Some (new_file 600000)"
  by (simp add: uninstall_mod_def set_file_attributes_def remove_file_attributes_def io_defs os_defs
      locked_env_def mac_env_def installed_disk_def new_file_def quoted_def)

text \<open>
  C8, amended. Protecting or unprotecting a path twice leaves the files as doing it once
  does. On Windows neither operation ever raises: a failing \<^verbatim>\<open>attrib\<close> command is ignored.
  On macOS and elsewhere a failing \<^verbatim>\<open>chflags\<close> command is ignored too, but the operation
  raises the OSError of \<^verbatim>\<open>os.chmod\<close> when the file is missing or the system refuses the
  change of mode.
\<close>

theorem file_attributes_best_effort:
  "fs (snd (set_file_attributes e p (snd (set_file_attributes e p w)))) =
     fs (snd (set_file_attributes e p w))
   \<and> fs (snd (remove_file_attributes e p (snd (remove_file_attributes e p w)))) =
     fs (snd (remove_file_attributes e p w))
   \<and> fst (set_file_attributes e p w) =
     (if system e = Windows then Inr ()
      else case fs w p of
             None \<Rightarrow> Inl (OSError ''No such file or directory'')
           | Some f \<Rightarrow> (case denied e (Chmod p 292) of
                          Some msg \<Rightarrow> Inl (OSError msg)
                        | None \<Rightarrow> Inr ()))
   \<and> fst (remove_file_attributes e p w) =
     (if system e = Windows then Inr ()
      else case fs w p of
             None \<Rightarrow> Inl (OSError ''No such file or directory'')
           | Some f \<Rightarrow> (case denied e (Chmod p 438) of
                          Some msg \<Rightarrow> Inl (OSError msg)
                        | None \<Rightarrow> Inr ()))"
proof (intro conjI)
  show "fs (snd (set_file_attributes e p (snd (set_file_attributes e p w)))) =
     fs (snd (set_file_attributes e p w))"
    by (cases "system e"; cases "fs w p"; cases "denied e (Chmod p 292)";
        cases "denied e (System (''chflags hidden '' @ quoted p))";
        cases "denied e (System (''attrib +h +s +r '' @ quoted p))")
      (simp_all add: set_file_attributes_def io_defs os_defs)
  show "fs (snd (remove_file_attributes e p (snd (remove_file_attributes e p w)))) =
     fs (snd (remove_file_attributes e p w))"
    by (cases "system e"; cases "fs w p"; cases "denied e (Chmod p 438)";
        cases "denied e (System (''chflags nohidden '' @ quoted p))";
        cases "denied e (System (''attrib -h -s -r '' @ quoted p))")
      (simp_all add: remove_file_attributes_def io_defs os_defs)
  show "fst (set_file_attributes e p w) =
     (if system e = Windows then Inr ()
      else case fs w p of
             None \<Rightarrow> Inl (OSError ''No such file or directory'')
           | Some f \<Rightarrow> (case denied e (Chmod p 292) of
                          Some msg \<Rightarrow> Inl (OSError msg)
                        | None \<Rightarrow> Inr ()))"
    by (cases "system e"; cases "fs w p"; cases "denied e (Chmod p 292)";
        cases "denied e (System (''chflags hidden '' @ quoted p))";
        cases "denied e (System (''attrib +h +s +r '' @ quoted p))")
      (simp_all add: set_file_attributes_def io_defs os_defs)
  show "fst (remove_file_attributes e p w) =
     (if system e = Windows then Inr ()
      else case fs w p of
             None \<Rightarrow> Inl (OSError ''No such file or directory'')
           | Some f \<Rightarrow> (case denied e (Chmod p 438) of
                          Some msg \<Rightarrow> Inl (OSError msg)
                        | None \<Rightarrow> Inr ()))"
    by (cases "system e"; cases "fs w p"; cases "denied e (Chmod p 438)";
        cases "denied e (System (''chflags nohidden '' @ quoted p))";
        cases "denied e (System (''attrib -h -s -r '' @ quoted p))")
      (simp_all add: remove_file_attributes_def io_defs os_defs)
qed

section \<open>The download thread\<close>

lemma seq_progress:
  "seq (concat (map (\<lambda>i. [bar_set i, label_configure (f i), sleep n]) xs)) w =
     (Inr (), w\<lparr>trace := trace w @ concat (map (\<lambda>i. [BarSet i, LabelText (f i), Sleep n]) xs)\<rparr>)"
  by (induction xs arbitrary: w) (simp_all add: io_defs)

lemma simulate_progress_run:
  "simulate_progress w = (Inr (), w\<lparr>trace := trace w @ progress_events\<rparr>)"
  unfolding simulate_progress_def progress_events_def by (rule seq_progress)

text \<open>The first four statements of the download thread.\<close>

lemma download_head:
  "seq [label_configure ''Initializing Download...'', bar_set 0, gdown_download e url tmp,
        simulate_progress] w =
     (case gdown e url tmp of
        Fetched n \<Rightarrow>
          (Inr (), w\<lparr>fs := (fs w)(tmp := Some (new_file n)),
                      trace := trace w @ [LabelText ''Initializing Download...'', BarSet 0,
                                          Os (Gdown url tmp)] @ progress_events\<rparr>)
      | NoFile \<Rightarrow>
          (Inr (), w\<lparr>trace := trace w @ [LabelText ''Initializing Download...'', BarSet 0,
                                          Os (Gdown url tmp)] @ progress_events\<rparr>)
      | Aborted left msg \<Rightarrow>
          (Inl (DownloadError msg),
           w\<lparr>fs := (case left of None \<Rightarrow> fs w | Some n \<Rightarrow> (fs w)(tmp := Some (new_file n))),
             trace := trace w @ [LabelText ''Initializing Download...'', BarSet 0,
                                 Os (Gdown url tmp)]\<rparr>))"
  by (simp add: io_defs gdown_download_def simulate_progress_run
      split: gdown_result.splits option.splits)

lemma rotation_and_files_append:
  "rotation_and_files (xs @ ys) = rotation_and_files xs @ rotation_and_files ys"
  by (induction xs rule: rotation_and_files.induct) simp_all

lemma rotation_and_files_steps:
  "rotation_and_files (concat (map (\<lambda>i. [BarSet i, LabelText (f i), Sleep n]) xs)) = []"
  by (induction xs) simp_all

lemma rotation_and_files_progress: "rotation_and_files progress_events = []"
  unfolding progress_events_def by (rule rotation_and_files_steps)

lemmas download_defs = download_def Let_def try_except_def bnd_def [of "seq _"] download_head

lemmas run_defs = io_defs os_defs set_file_attributes_def remove_file_attributes_def
  load_mod_list_def get_user_purchased_mods_def read_user_mods_def split_user_mods_def
  fetch_mod_list_def update_key_def post_update_serial_key_def new_serial_key_def
  string_defs ascii_lower_def ascii_lower_char_def upper_def upper_char_def char_of_def bit_0
  new_file_def quoted_def





text \<open>
  C3 does not hold of the code. The handler of the download thread only logs and
  reports; it does not delete the staging file, while the branch of the size check
  does. When the rename is refused after a complete transfer, and when the transfer
  raises after writing a part of the file, the staging file stays and there is no final
  file.
\<close>

theorem download_leaves_staging_file:
  "download rename_refused_env ''https://drive.google.com/uc?id=1AbC'' ''/mod/premium_truck.scs'' empty_disk =
     (Inr False,
      \<lparr>fs = (\<lambda>p. if p = ''/mod/premium_truck.scs.tmp'' then Some (new_file 600000) else None),
       trace = [LabelText ''Initializing Download...'', BarSet 0,
                Os (Gdown ''https://drive.google.com/uc?id=1AbC'' ''/mod/premium_truck.scs.tmp'')]
         @ progress_events
         @ [Os (Rename ''/mod/premium_truck.scs.tmp'' ''/mod/premium_truck.scs''),
            LogError ''Download failed: Permission denied'',
            ShowError ''Error'' ''Failed to download mod: Permission denied'',
            LabelText ''Download Failed'']\<rparr>)
   \<and> download aborted_env ''https://drive.google.com/uc?id=1AbC'' ''/mod/premium_truck.scs'' empty_disk =
     (Inr False,
      \<lparr>fs = (\<lambda>p. if p = ''/mod/premium_truck.scs.tmp'' then Some (new_file 123456) else None),
       trace = [LabelText ''Initializing Download...'', BarSet 0,
                Os (Gdown ''https://drive.google.com/uc?id=1AbC'' ''/mod/premium_truck.scs.tmp''),
                LogError ''Download failed: Connection reset by peer'',
                ShowError ''Error'' ''Failed to download mod: Connection reset by peer'',
                LabelText ''Download Failed'']\<rparr>)"
  unfolding download_defs
  by (auto simp: run_defs rename_refused_env_def aborted_env_def mac_env_def empty_disk_def)

text \<open>
  C2 does not hold of the code. \<^verbatim>\<open>install_mod\<close> starts the key-rotation thread itself,
  right after it has started the download thread, and not when the download is over. So
  the rotation request can come before every file operation of the download (first
  schedule below), and it is sent also when the download fails and no asset is placed
  (second schedule, with a transfer of 400,000 bytes).
\<close>

theorem rotation_before_download:
  "snd (install_mod mac_env ''premium truck'' ''premium_truck''
         ''https://drive.google.com/file/d/1AbC/view'' (Some ''ABCD1234XYZ999'') empty_disk) = after_install
   \<and> spawned (trace after_install) =
       [DownloadTask ''https://drive.google.com/uc?id=1AbC'' ''/mod/premium_truck.scs'',
        UpdateKeyTask ''premium_truck'']
   \<and> rotation_and_files (trace (run_tasks mac_env
         [UpdateKeyTask ''premium_truck'',
          DownloadTask ''https://drive.google.com/uc?id=1AbC'' ''/mod/premium_truck.scs''] after_install)) =
       [Post ''http://lynx96.pythonanywhere.com/update_serial_key'' ''premium_truck'' ''123E4567E89B12'',
        Os (Gdown ''https://drive.google.com/uc?id=1AbC'' ''/mod/premium_truck.scs.tmp''),
        Os (Rename ''/mod/premium_truck.scs.tmp'' ''/mod/premium_truck.scs''),
        Os (System (''chflags hidden '' @ quoted ''/mod/premium_truck.scs'')),
        Os (Chmod ''/mod/premium_truck.scs'' 292)]
   \<and> rotation_and_files (trace (run_tasks small_env
         [DownloadTask ''https://drive.google.com/uc?id=1AbC'' ''/mod/premium_truck.scs'',
          UpdateKeyTask ''premium_truck''] after_install)) =
       [Os (Gdown ''https://drive.google.com/uc?id=1AbC'' ''/mod/premium_truck.scs.tmp''),
        Os (Remove ''/mod/premium_truck.scs.tmp''),
        Post ''http://lynx96.pythonanywhere.com/update_serial_key'' ''premium_truck'' ''123E4567E89B12'']
   \<and> fs (run_tasks small_env
         [DownloadTask ''https://drive.google.com/uc?id=1AbC'' ''/mod/premium_truck.scs'',
          UpdateKeyTask ''premium_truck''] after_install) ''/mod/premium_truck.scs'' = None"
proof (intro conjI)
  show "snd (install_mod mac_env ''premium truck'' ''premium_truck''
         ''https://drive.google.com/file/d/1AbC/view'' (Some ''ABCD1234XYZ999'') empty_disk) = after_install"
    by (simp add: install_mod_mac_env)
  show "spawned (trace after_install) =
       [DownloadTask ''https://drive.google.com/uc?id=1AbC'' ''/mod/premium_truck.scs'',
        UpdateKeyTask ''premium_truck'']"
    by (simp add: after_install_def)
  show "rotation_and_files (trace (run_tasks mac_env
         [UpdateKeyTask ''premium_truck'',
          DownloadTask ''https://drive.google.com/uc?id=1AbC'' ''/mod/premium_truck.scs''] after_install)) =
       [Post ''http://lynx96.pythonanywhere.com/update_serial_key'' ''premium_truck'' ''123E4567E89B12'',
        Os (Gdown ''https://drive.google.com/uc?id=1AbC'' ''/mod/premium_truck.scs.tmp''),
        Os (Rename ''/mod/premium_truck.scs.tmp'' ''/mod/premium_truck.scs''),
        Os (System (''chflags hidden '' @ quoted ''/mod/premium_truck.scs'')),
        Os (Chmod ''/mod/premium_truck.scs'' 292)]"
    unfolding run_tasks.simps run_task.simps download_defs
    by (simp add: run_defs example_defs after_install_def rotation_and_files_append
        rotation_and_files_progress)
  show "rotation_and_files (trace (run_tasks small_env
         [DownloadTask ''https://drive.google.com/uc?id=1AbC'' ''/mod/premium_truck.scs'',
          UpdateKeyTask ''premium_truck''] after_install)) =
       [Os (Gdown ''https://drive.google.com/uc?id=1AbC'' ''/mod/premium_truck.scs.tmp''),
        Os (Remove ''/mod/premium_truck.scs.tmp''),
        Post ''http://lynx96.pythonanywhere.com/update_serial_key'' ''premium_truck'' ''123E4567E89B12'']"
    unfolding run_tasks.simps run_task.simps download_defs
    by (simp add: run_defs small_env_def example_defs after_install_def rotation_and_files_append
        rotation_and_files_progress)
  show "fs (run_tasks small_env
         [DownloadTask ''https://drive.google.com/uc?id=1AbC'' ''/mod/premium_truck.scs'',
          UpdateKeyTask ''premium_truck''] after_install) ''/mod/premium_truck.scs'' = None"
    unfolding run_tasks.simps run_task.simps download_defs
    by (simp add: run_defs small_env_def example_defs after_install_def)
qed


section \<open>What the catalog decides\<close>

text \<open>
  Of the catalog, \<^verbatim>\<open>install_mod\<close> reads the display names and the serial keys only. The
  download thread reads the catalog when it redraws the list, after the asset is placed
  and protected, which changes no file.
\<close>

lemma install_matched_catalog:
  "install_matched (e\<lparr>get_available_mods := r\<rparr>) internal_name drive_link =
     install_matched e internal_name drive_link"
  unfolding install_matched_def download_with_gdown_def remove_file_attributes_def os_defs
  by (simp cong: option.case_cong platform.case_cong if_cong)

lemma record_matches_fields:
  "Mod_Name m1 = Mod_Name m2 \<Longrightarrow> Serial_Key m1 = Serial_Key m2 \<Longrightarrow>
     record_matches m1 mod_name key = record_matches m2 mod_name key"
  by (simp add: record_matches_def split: option.splits)

lemma install_loop_catalog:
  assumes "map (\<lambda>m. (Mod_Name m, Serial_Key m)) ms1 = map (\<lambda>m. (Mod_Name m, Serial_Key m)) ms2"
  shows "install_loop (e\<lparr>get_available_mods := r\<rparr>) mod_name internal_name drive_link key ms2 =
     install_loop e mod_name internal_name drive_link key ms1"
  using assms
proof (induction ms1 arbitrary: ms2)
  case Nil
  then show ?case by simp
next
  case (Cons m1 ms1)
  then obtain m2 ms2' where ms2: "ms2 = m2 # ms2'"
    and same: "Mod_Name m1 = Mod_Name m2" "Serial_Key m1 = Serial_Key m2"
    and rest: "map (\<lambda>m. (Mod_Name m, Serial_Key m)) ms1 = map (\<lambda>m. (Mod_Name m, Serial_Key m)) ms2'"
    by (cases ms2) auto
  show ?case
    unfolding ms2
    by (simp add: Cons.IH [OF rest] record_matches_fields [OF same] install_matched_catalog
        cong: if_cong)
qed

lemma update_key_catalog:
  "update_key (e\<lparr>get_available_mods := r\<rparr>) internal_name = update_key e internal_name"
  unfolding update_key_def post_update_serial_key_def new_serial_key_def
  by (simp cong: option.case_cong http.case_cong if_cong)

lemma os_catalog:
  "gdown_download (e\<lparr>get_available_mods := r\<rparr>) = gdown_download e"
  "os_remove (e\<lparr>get_available_mods := r\<rparr>) = os_remove e"
  "os_rename (e\<lparr>get_available_mods := r\<rparr>) = os_rename e"
  "set_file_attributes (e\<lparr>get_available_mods := r\<rparr>) = set_file_attributes e"
  "path_basename (e\<lparr>get_available_mods := r\<rparr>) = path_basename e"
  unfolding gdown_download_def os_remove_def os_rename_def set_file_attributes_def
    os_system_def os_chmod_def
  by (simp_all cong: option.case_cong platform.case_cong gdown_result.case_cong if_cong)

lemma try_refresh_footprint:
  assumes "\<And>x w1. fs (snd (h x w1)) = fs w1 \<and> os_calls (trace (snd (h x w1))) = os_calls (trace w1)"
  shows "fs (snd (case load_mod_list e w of
            (Inl x, w1) \<Rightarrow> h x w1 | (Inr u, w1) \<Rightarrow> (Inr True, w1))) = fs w
      \<and> os_calls (trace (snd (case load_mod_list e w of
            (Inl x, w1) \<Rightarrow> h x w1 | (Inr u, w1) \<Rightarrow> (Inr True, w1)))) = os_calls (trace w)"
proof -
  obtain r1 w1 where l: "load_mod_list e w = (r1, w1)"
    by (cases "load_mod_list e w")
  from load_mod_list_quiet [OF l] assms show ?thesis
    by (cases r1) (simp_all add: l)
qed

lemma download_footprint:
  "fs (snd (download (e\<lparr>get_available_mods := r\<rparr>) url destination w)) =
     fs (snd (download e url destination w))
   \<and> os_calls (trace (snd (download (e\<lparr>get_available_mods := r\<rparr>) url destination w))) =
     os_calls (trace (snd (download e url destination w)))"
proof -
  define tmp where "tmp = destination @ ''.tmp''"
  define H :: "exn \<Rightarrow> bool io" where
    "H = (\<lambda>x. bnd (seq [logging_error (''Download failed: '' @ str_exn x),
                       showerror ''Error'' (''Failed to download mod: '' @ str_exn x),
                       label_configure ''Download Failed'']) (\<lambda>_. ret False))"
  define prep :: "env \<Rightarrow> bool io" where
    "prep = (\<lambda>E.
        bnd (seq [label_configure ''Initializing Download...'',
                  bar_set 0,
                  gdown_download E url tmp,
                  simulate_progress]) (\<lambda>_.
        bnd (bnd (os_path_exists tmp) (\<lambda>there.
               if \<not> there then ret True
               else bnd (os_path_getsize tmp) (\<lambda>n. ret (n < 500000)))) (\<lambda>failed.
        if failed then
          bnd (seq [bnd (os_path_exists tmp) (\<lambda>there.
                      if there then os_remove E tmp else ret ()),
                    showerror ''Error'' ''Download failed! Try again.'',
                    label_configure ''Download Failed'',
                    bar_set 0]) (\<lambda>_. ret False)
        else
          bnd (seq [os_rename E tmp destination,
                    set_file_attributes E destination,
                    label_configure ''Mod Installed!'',
                    bar_set 100,
                    showinfo ''Success'' (path_basename E destination @ '' installed successfully!'')])
            (\<lambda>_. ret True))))"
  have shape: "download E url destination w =
      (case prep E w of
         (Inl x, w1) \<Rightarrow> H x w1
       | (Inr finished, w1) \<Rightarrow>
           if finished then
             (case load_mod_list E w1 of (Inl x, w2) \<Rightarrow> H x w2 | (Inr u, w2) \<Rightarrow> (Inr True, w2))
           else (Inr False, w1))" for E
    unfolding download_def prep_def H_def tmp_def Let_def
    by (simp add: io_defs simulate_progress_run os_path_exists_def os_path_getsize_def
        split: prod.splits sum.splits option.splits)
  have same: "prep (e\<lparr>get_available_mods := r\<rparr>) = prep e"
    unfolding prep_def by (simp add: os_catalog cong: if_cong)
  have H_quiet: "fs (snd (H x w1)) = fs w1 \<and> os_calls (trace (snd (H x w1))) = os_calls (trace w1)"
    for x w1
    by (simp add: H_def io_defs os_calls_append)
  note refresh = try_refresh_footprint [of H, OF H_quiet]
  obtain p w1 where p: "prep e w = (p, w1)"
    by (cases "prep e w")
  show ?thesis
  proof (cases p)
    case (Inl x)
    with p show ?thesis by (simp add: shape same)
  next
    case (Inr finished)
    with p refresh [of "e\<lparr>get_available_mods := r\<rparr>" w1] refresh [of e w1] show ?thesis
      by (simp add: shape same)
  qed
qed


text \<open>
  C10. Let two catalogs agree, record by record, on display name and serial key, and
  differ at will in the links and the internal names. Then \<^verbatim>\<open>install_mod\<close> does the same
  on both, for every argument and every world: the same result, the same files, the same
  trace, and so the same download URL and final path in the threads it starts. And each
  started thread leaves the same files and makes the same calls into the operating
  system with either catalog.
\<close>

theorem install_mod_catalog_independent:
  assumes "get_available_mods e = Response status text (Inr ms1)"
    and "map (\<lambda>m. (Mod_Name m, Serial_Key m)) ms1 = map (\<lambda>m. (Mod_Name m, Serial_Key m)) ms2"
  shows "install_mod (e\<lparr>get_available_mods := Response status text (Inr ms2)\<rparr>)
           mod_name internal_name drive_link key w =
         install_mod e mod_name internal_name drive_link key w
    \<and> fs (run_task (e\<lparr>get_available_mods := Response status text (Inr ms2)\<rparr>) t w') =
        fs (run_task e t w')
    \<and> os_calls (trace (run_task (e\<lparr>get_available_mods := Response status text (Inr ms2)\<rparr>) t w')) =
        os_calls (trace (run_task e t w'))"
proof (intro conjI)
  let ?e = "e\<lparr>get_available_mods := Response status text (Inr ms2)\<rparr>"
  show "install_mod ?e mod_name internal_name drive_link key w =
      install_mod e mod_name internal_name drive_link key w"
  proof (cases "status = 200")
    case True
    with assms(1) show ?thesis
      by (simp add: install_mod_def fetch_mod_list_def io_defs install_loop_catalog [OF assms(2)]
          del: install_loop.simps)
  next
    case False
    have "install_loop ?e mod_name internal_name drive_link key [] =
        install_loop e mod_name internal_name drive_link key []"
      by (rule install_loop_catalog) simp
    with False assms(1) show ?thesis
      by (simp add: install_mod_def fetch_mod_list_def io_defs del: install_loop.simps)
  qed
  show "fs (run_task ?e t w') = fs (run_task e t w')"
    by (cases t) (simp_all add: download_footprint update_key_catalog)
  show "os_calls (trace (run_task ?e t w')) = os_calls (trace (run_task e t w'))"
    by (cases t) (simp_all add: download_footprint update_key_catalog)
qed

theorem install_mod_catalog_independent_witness:
  "get_available_mods mac_env = Response 200 [] (Inr [premium_truck])
   \<and> map (\<lambda>m. (Mod_Name m, Serial_Key m)) [premium_truck] =
     map (\<lambda>m. (Mod_Name m, Serial_Key m)) [moved_truck]
   \<and> install_mod (mac_env\<lparr>get_available_mods := Response 200 [] (Inr [moved_truck])\<rparr>)
        ''premium truck'' ''premium_truck'' ''https://drive.google.com/file/d/1AbC/view''
        (Some ''ABCD1234XYZ999'') empty_disk = (Inr (), after_install)
   \<and> spawned (trace after_install) =
       [DownloadTask ''https://drive.google.com/uc?id=1AbC'' ''/mod/premium_truck.scs'',
        UpdateKeyTask ''premium_truck'']"
proof -
  have a: "get_available_mods mac_env = Response 200 [] (Inr [premium_truck])"
    by (simp add: mac_env_def)
  have b: "map (\<lambda>m. (Mod_Name m, Serial_Key m)) [premium_truck] =
      map (\<lambda>m. (Mod_Name m, Serial_Key m)) [moved_truck]"
    by (simp add: moved_truck_def)
  show ?thesis
    using install_mod_catalog_independent [OF a b, of "''premium truck''" "''premium_truck''"
        "''https://drive.google.com/file/d/1AbC/view''" "Some ''ABCD1234XYZ999''" empty_disk] a b
    by (simp add: install_mod_mac_env) (simp add: after_install_def)
qed

end
